theory Spec2Isabelle
  imports Main "HOL-Library.AList"
begin

section \<open>JavaScript values and the runtime functions the code calls\<close>

text \<open>
  A parsed JSON value. A field of a request body is a \<open>json option\<close>: \<open>None\<close> is
  JavaScript's \<open>undefined\<close> (the field is absent). Numbers are the integers (non-integral
  doubles need floating point and are outside the model). An object is the list of its own
  properties in enumeration order. A \<open>char\<close> stands for one UTF-16 code unit below 256,
  and \<open>length\<close> of a \<open>string\<close> is JavaScript's \<open>.length\<close>.
\<close>

datatype json =
    JNull
  | JBool bool
  | JNum int
  | JStr string
  | JArr "json list"
  | JObj "(string \<times> json) list"

text \<open>Truthiness of a value, as \<open>!x\<close> and \<open>if (x)\<close> read it.\<close>

fun truthy :: "json option \<Rightarrow> bool" where
  "truthy None = False"
| "truthy (Some JNull) = False"
| "truthy (Some (JBool b)) = b"
| "truthy (Some (JNum n)) = (n \<noteq> 0)"
| "truthy (Some (JStr s)) = (s \<noteq> [])"
| "truthy (Some (JArr vs)) = True"
| "truthy (Some (JObj kvs)) = True"

text \<open>\<open>typeof x === 'string'\<close>.\<close>

fun is_string :: "json option \<Rightarrow> bool" where
  "is_string (Some (JStr s)) = True"
| "is_string v = False"

text \<open>\<open>String.prototype.trim\<close>: the white space and line terminators below 256.\<close>

definition js_whitespace :: "char \<Rightarrow> bool" where
  "js_whitespace c =
     (c = CHR 0x09 \<or> c = CHR 0x0A \<or> c = CHR 0x0B \<or> c = CHR 0x0C \<or> c = CHR 0x0D
      \<or> c = CHR 0x20 \<or> c = CHR 0xA0)"

definition js_trim :: "string \<Rightarrow> string" where
  "js_trim s = rev (dropWhile js_whitespace (rev (dropWhile js_whitespace s)))"

text \<open>\<open>String.prototype.includes\<close>.\<close>

fun str_includes :: "string \<Rightarrow> string \<Rightarrow> bool" where
  "str_includes [] sub = (sub = [])"
| "str_includes (c # cs) sub = (take (length sub) (c # cs) = sub \<or> str_includes cs sub)"

text \<open>\<open>Array.prototype.join\<close> on strings.\<close>

fun join :: "string \<Rightarrow> string list \<Rightarrow> string" where
  "join sep [] = []"
| "join sep [x] = x"
| "join sep (x # y # ys) = x @ sep @ join sep (y # ys)"

text \<open>
  \<open>String(n)\<close> and \<open>n.toString()\<close> on an integer: its decimal digits. This is what
  the code prints for an integer of magnitude below \<open>10\<^sup>2\<^sup>1\<close> that a double holds
  exactly; from \<open>10\<^sup>2\<^sup>1\<close> on JavaScript prints an exponent, and \<open>JSON.parse\<close> rounds
  an integer beyond \<open>2\<^sup>5\<^sup>3\<close>, which are not modelled.
\<close>

definition digit_char :: "nat \<Rightarrow> char" where
  "digit_char d = ''0123456789abcdef'' ! d"

fun nat_to_string :: "nat \<Rightarrow> string" where
  "nat_to_string n =
     (if n < 10 then [digit_char n] else nat_to_string (n div 10) @ [digit_char (n mod 10)])"

declare nat_to_string.simps [simp del]

definition number_to_string :: "int \<Rightarrow> string" where
  "number_to_string n =
     (if n < 0 then CHR ''-'' # nat_to_string (nat (- n)) else nat_to_string (nat n))"

text \<open>
  \<open>JSON.stringify(v, null, gap)\<close> on a parsed JSON value (ECMAScript's
  SerializeJSONProperty): \<open>gap\<close> is the indentation unit (empty for
  \<open>JSON.stringify(v)\<close>, two spaces for \<open>JSON.stringify(v, null, 2)\<close>) and \<open>ind\<close> the
  current indentation.
\<close>

definition quote_char :: "char \<Rightarrow> string" where
  "quote_char c =
     (if c = CHR 0x08 then [CHR 0x5C, CHR ''b'']
      else if c = CHR 0x09 then [CHR 0x5C, CHR ''t'']
      else if c = CHR 0x0A then [CHR 0x5C, CHR ''n'']
      else if c = CHR 0x0C then [CHR 0x5C, CHR ''f'']
      else if c = CHR 0x0D then [CHR 0x5C, CHR ''r'']
      else if c = CHR 0x22 then [CHR 0x5C, CHR 0x22]
      else if c = CHR 0x5C then [CHR 0x5C, CHR 0x5C]
      else if of_char c < (32 :: nat)
        then [CHR 0x5C, CHR ''u'', CHR ''0'', CHR ''0'',
              digit_char (of_char c div 16), digit_char (of_char c mod 16)]
      else [c])"

definition quote_json_string :: "string \<Rightarrow> string" where
  "quote_json_string s = CHR 0x22 # concat (map quote_char s) @ [CHR 0x22]"

fun stringify :: "string \<Rightarrow> string \<Rightarrow> json \<Rightarrow> string" where
  "stringify gap ind JNull = ''null''"
| "stringify gap ind (JBool b) = (if b then ''true'' else ''false'')"
| "stringify gap ind (JNum n) = number_to_string n"
| "stringify gap ind (JStr s) = quote_json_string s"
| "stringify gap ind (JArr vs) =
     (if vs = [] then ''[]''
      else if gap = [] then ''['' @ join '','' (map (stringify gap (ind @ gap)) vs) @ '']''
      else ''['' @ [CHR 0x0A] @ (ind @ gap)
           @ join ('','' @ [CHR 0x0A] @ (ind @ gap)) (map (stringify gap (ind @ gap)) vs)
           @ [CHR 0x0A] @ ind @ '']'')"
| "stringify gap ind (JObj kvs) =
     (if kvs = [] then ''{}''
      else if gap = []
        then ''{'' @ join '',''
               (map (\<lambda>kv. quote_json_string (fst kv) @ '':'' @ stringify gap (ind @ gap) (snd kv)) kvs)
             @ ''}''
      else ''{'' @ [CHR 0x0A] @ (ind @ gap)
           @ join ('','' @ [CHR 0x0A] @ (ind @ gap))
               (map (\<lambda>kv. quote_json_string (fst kv) @ '': '' @ stringify gap (ind @ gap) (snd kv)) kvs)
           @ [CHR 0x0A] @ ind @ ''}'')"

text \<open>A thrown \<open>Error\<close>, with its message.\<close>

datatype error = Error string

fun message :: "error \<Rightarrow> string" where
  "message (Error m) = m"

section \<open>Configuration (src/config/index.js)\<close>

record employee =
  emp_assistantId :: string
  emp_name :: string
  emp_role :: string
  emp_specialty :: string
  emp_webhookUrl :: string

text \<open>
  \<open>config.employees\<close>: the own properties of the object literal. A lookup
  \<open>config.employees[id]\<close> also finds the members the literal inherits from
  \<open>Object.prototype\<close> (\<open>'constructor'\<close>, \<open>'__proto__'\<close> and the like), none of which
  has a webhook URL; \<open>employee_of\<close> looks among the own properties only.
\<close>

definition config_employees :: "(string \<times> employee) list" where
  "config_employees =
     [(''brenden'',
        \<lparr>emp_assistantId = ''asst_MvlMZ3IOvQrTkbsENRSzGRwZ'', emp_name = ''AI Brenden'',
         emp_role = ''lead scraper'', emp_specialty = ''Lead Research Specialist'',
         emp_webhookUrl = ''https://hook.eu2.make.com/lxa5qab0magprieff0sujnfkfycwu9x7''\<rparr>),
      (''van'',
        \<lparr>emp_assistantId = ''asst_x0WhKHr61IUopNPR7A8No9kK'', emp_name = ''AI Van'',
         emp_role = ''page operator'', emp_specialty = ''Digital Marketing Designer'',
         emp_webhookUrl = ''https://hook.eu2.make.com/6e1mvvrxjd2dm5mbdvlgmxc2sut3r3lk''\<rparr>),
      (''angel'',
        \<lparr>emp_assistantId = ''asst_angel_placeholder'', emp_name = ''AI Angel'',
         emp_role = ''voice caller'', emp_specialty = ''Voice Outreach Manager'',
         emp_webhookUrl = ''https://hook.eu2.make.com/angel_webhook_placeholder''\<rparr>)]"

definition employee_of :: "string \<Rightarrow> employee option" where
  "employee_of employeeId = map_of config_employees employeeId"

section \<open>The webhook handler (class WebhookHandler)\<close>

subsection \<open>Data\<close>

text \<open>The payload posted to an employee's webhook (built in \<open>sendToolCalls\<close>).\<close>

record payload =
  pl_tool_call_id :: string
  pl_function_name :: string
  pl_arguments :: json
  pl_thread_id :: string
  pl_run_id :: string
  pl_employee_id :: string
  pl_employee_name :: string
  pl_employee_role :: string
  pl_timestamp :: int
  pl_retry_count :: nat

text \<open>
  An entry of \<open>this.pendingCalls\<close>. The fields set at creation, then the optional ones the
  handler adds later (\<open>None\<close> while the property is absent). Times are milliseconds since
  the epoch; an ISO time string is modelled by the clock reading it prints.
\<close>

record pending_call =
  threadId :: string
  runId :: string
  employeeId :: string
  functionName :: string
  timestamp :: int
  arguments :: json
  retryCount :: nat
  webhookUrl :: string
  payload :: payload
  status :: "string option"
  lastError :: "string option"
  lastAttempt :: "int option"
  finalError :: "string option"
  failedAt :: "int option"
  processedAt :: "int option"

text \<open>
  The state a method of the handler reads and writes: the \<open>pendingCalls\<close> map in insertion
  order (a JavaScript \<open>Map\<close>: \<open>set\<close> is \<open>AList.update\<close>, \<open>get\<close> is \<open>map_of\<close>, \<open>delete\<close> is
  \<open>AList.delete\<close>), the clock \<open>Date.now()\<close> reads, and the delays the handler has waited
  with \<open>setTimeout\<close> so far (each wait also advances the clock).
\<close>

record handler_state =
  pendingCalls :: "(string \<times> pending_call) list"
  clock :: int
  slept :: "nat list"

text \<open>The constants the constructor sets.\<close>

definition retryAttempts :: nat where
  "retryAttempts = 5"

definition retryDelay :: nat where
  "retryDelay = 2000"

definition maxRetryDelay :: nat where
  "maxRetryDelay = 10000"

subsection \<open>sendWebhookWithRetry\<close>

text \<open>
  The delay expression of lines 133 and 203,
  \<open>Math.min(retryDelay * Math.pow(2, attempt - 1), maxRetryDelay)\<close>, for an attempt number
  from 1 on (the only ones the handler passes).
\<close>

definition backoff_delay :: "nat \<Rightarrow> nat \<Rightarrow> nat \<Rightarrow> nat" where
  "backoff_delay baseDelay maxDelay attempt = min (baseDelay * 2 ^ (attempt - 1)) maxDelay"

text \<open>What \<open>await axios.post(...)\<close> resolves to.\<close>

record http_response =
  http_status :: nat
  statusText :: string
  data :: json
  x_response_time :: "string option"

text \<open>
  The transport: what \<open>axios.post(webhookUrl, payload, axiosConfig)\<close> does for a URL, a
  payload and the attempt number of the \<open>X-Attempt\<close> header: it throws an error with a
  message (\<open>Inl\<close>) or resolves to a response.
\<close>

type_synonym transport = "string \<Rightarrow> payload \<Rightarrow> nat \<Rightarrow> string + http_response"

record send_result =
  toolCallId :: string
  sr_employeeId :: string
  sr_employeeName :: string
  sr_webhookUrl :: string
  sr_status :: string
  response :: json
  attempt_no :: nat
  response_time :: string

text \<open>The \<open>try\<close> block of \<open>sendWebhookWithRetry\<close> (lines 128 to 186): one delivery.\<close>

definition deliver :: "transport \<Rightarrow> payload \<Rightarrow> string \<Rightarrow> nat \<Rightarrow> error + send_result" where
  "deliver post p url attempt =
     (case post url p attempt of
        Inl msg \<Rightarrow> Inl (Error msg)
      | Inr resp \<Rightarrow>
          if http_status resp \<ge> 400
          then Inl (Error (''Webhook returned '' @ nat_to_string (http_status resp) @ '': ''
                 @ statusText resp @ '' - '' @ stringify [] [] (data resp)))
          else Inr \<lparr>toolCallId = pl_tool_call_id p, sr_employeeId = pl_employee_id p,
                    sr_employeeName = pl_employee_name p, sr_webhookUrl = url,
                    sr_status = ''sent'', response = data resp, attempt_no = attempt,
                    response_time =
                      (case x_response_time resp of
                         None \<Rightarrow> ''unknown''
                       | Some t \<Rightarrow> if t = [] then ''unknown'' else t)\<rparr>)"

text \<open>The update of the stored entry before a retry (lines 207 to 212).\<close>

definition note_retry :: "string \<Rightarrow> nat \<Rightarrow> string \<Rightarrow> handler_state \<Rightarrow> handler_state" where
  "note_retry tcid attempt msg st =
     (case map_of (pendingCalls st) tcid of
        None \<Rightarrow> st
      | Some pendingCall \<Rightarrow>
          st\<lparr>pendingCalls :=
               AList.update tcid
                 (pendingCall\<lparr>retryCount := attempt, lastError := Some msg,
                              lastAttempt := Some (clock st)\<rparr>)
                 (pendingCalls st)\<rparr>)"

text \<open>The update of the stored entry at the final failure (lines 228 to 233).\<close>

definition note_failed :: "string \<Rightarrow> string \<Rightarrow> handler_state \<Rightarrow> handler_state" where
  "note_failed tcid msg st =
     (case map_of (pendingCalls st) tcid of
        None \<Rightarrow> st
      | Some pendingCall \<Rightarrow>
          st\<lparr>pendingCalls :=
               AList.update tcid
                 (pendingCall\<lparr>status := Some ''failed'', finalError := Some msg,
                              failedAt := Some (clock st)\<rparr>)
                 (pendingCalls st)\<rparr>)"

text \<open>\<open>await new Promise(resolve => setTimeout(resolve, delay))\<close>.\<close>

definition wait :: "nat \<Rightarrow> handler_state \<Rightarrow> handler_state" where
  "wait delay st = st\<lparr>clock := clock st + int delay, slept := slept st @ [delay]\<rparr>"

function sendWebhookWithRetry ::
  "transport \<Rightarrow> payload \<Rightarrow> string \<Rightarrow> nat \<Rightarrow> handler_state \<Rightarrow> (error + send_result) \<times> handler_state"
where
  "sendWebhookWithRetry post p url attempt st =
     (case deliver post p url attempt of
        Inr sent \<Rightarrow> (Inr sent, st)
      | Inl err \<Rightarrow>
          if attempt < retryAttempts
          then sendWebhookWithRetry post p url (attempt + 1)
                 (wait (backoff_delay retryDelay maxRetryDelay attempt)
                    (note_retry (pl_tool_call_id p) attempt (message err) st))
          else (Inl (Error (pl_employee_name p @ '' webhook failed after ''
                       @ nat_to_string retryAttempts @ '' attempts: '' @ message err)),
                note_failed (pl_tool_call_id p) (message err) st))"
  by pat_completeness auto
termination
  by (relation "measure (\<lambda>(post, p, url, attempt, st). retryAttempts - attempt)") auto

declare sendWebhookWithRetry.simps [simp del]

subsection \<open>sendToolCalls\<close>

definition getWebhookUrlForEmployee :: "string \<Rightarrow> error + string" where
  "getWebhookUrlForEmployee eid =
     (case employee_of eid of
        None \<Rightarrow>
          Inl (Error (''Employee '' @ [CHR 0x27] @ eid @ [CHR 0x27] @ '' not found in configuration''))
      | Some emp \<Rightarrow>
          if emp_webhookUrl emp = [] \<or> str_includes (emp_webhookUrl emp) ''placeholder''
          then Inl (Error (''Webhook URL not configured for employee '' @ [CHR 0x27] @ emp_name emp
                 @ [CHR 0x27]))
          else Inr (emp_webhookUrl emp))"

text \<open>A tool call of the run: \<open>toolCall.id\<close>, \<open>toolCall.function.name\<close> and
  \<open>toolCall.function.arguments\<close> (a JSON text).\<close>

record tool_call =
  tc_id :: string
  tc_function_name :: string
  tc_function_arguments :: string

text \<open>\<open>JSON.parse\<close>: it throws a SyntaxError with a message (\<open>Inl\<close>) or returns the value.\<close>

type_synonym json_parse = "string \<Rightarrow> string + json"

text \<open>The record pushed for a call whose dispatch threw (lines 106 to 112).\<close>

record error_result =
  er_toolCallId :: string
  er_employeeId :: string
  er_status :: string
  er_error :: string
  er_retryable :: bool

datatype dispatch_result = Sent send_result | NotSent error_result

definition dispatch_error :: "tool_call \<Rightarrow> string \<Rightarrow> string \<Rightarrow> dispatch_result" where
  "dispatch_error toolCall eid msg =
     NotSent \<lparr>er_toolCallId = tc_id toolCall, er_employeeId = eid, er_status = ''error'',
              er_error = msg, er_retryable = True\<rparr>"

text \<open>The body of the \<open>for\<close> loop (lines 63 to 113) for one tool call.\<close>

definition dispatch_one ::
  "json_parse \<Rightarrow> transport \<Rightarrow> string \<Rightarrow> employee \<Rightarrow> string \<Rightarrow> string \<Rightarrow> string \<Rightarrow> tool_call
     \<Rightarrow> handler_state \<Rightarrow> dispatch_result \<times> handler_state"
where
  "dispatch_one parse post url emp tid rid eid toolCall st =
     (case parse (tc_function_arguments toolCall) of
        Inl msg \<Rightarrow> (dispatch_error toolCall eid msg, st)
      | Inr args \<Rightarrow>
          (let p = \<lparr>pl_tool_call_id = tc_id toolCall,
                    pl_function_name = tc_function_name toolCall,
                    pl_arguments = args, pl_thread_id = tid, pl_run_id = rid,
                    pl_employee_id = eid, pl_employee_name = emp_name emp,
                    pl_employee_role = emp_role emp, pl_timestamp = clock st,
                    pl_retry_count = 0\<rparr>;
               entry = \<lparr>threadId = tid, runId = rid, employeeId = eid,
                        functionName = tc_function_name toolCall, timestamp = clock st,
                        arguments = args, retryCount = 0, webhookUrl = url, payload = p,
                        status = None, lastError = None, lastAttempt = None,
                        finalError = None, failedAt = None, processedAt = None\<rparr>;
               st1 = st\<lparr>pendingCalls := AList.update (tc_id toolCall) entry (pendingCalls st)\<rparr>
           in case sendWebhookWithRetry post p url 1 st1 of
                (Inr sent, st2) \<Rightarrow> (Sent sent, st2)
              | (Inl err, st2) \<Rightarrow> (dispatch_error toolCall eid (message err), st2)))"

fun dispatch_all ::
  "json_parse \<Rightarrow> transport \<Rightarrow> string \<Rightarrow> employee \<Rightarrow> string \<Rightarrow> string \<Rightarrow> string \<Rightarrow> tool_call list
     \<Rightarrow> handler_state \<Rightarrow> dispatch_result list \<times> handler_state"
where
  "dispatch_all parse post url emp tid rid eid [] st = ([], st)"
| "dispatch_all parse post url emp tid rid eid (toolCall # toolCalls) st =
     (case dispatch_one parse post url emp tid rid eid toolCall st of
        (r, st1) \<Rightarrow>
          (case dispatch_all parse post url emp tid rid eid toolCalls st1 of
             (rs, st2) \<Rightarrow> (r # rs, st2)))"

text \<open>
  \<open>sendToolCalls(toolCalls, threadId, runId, employeeId)\<close>. The second \<open>case\<close> is line 46,
  which reads \<open>config.employees[employeeId].name\<close>.
\<close>

definition sendToolCalls ::
  "json_parse \<Rightarrow> transport \<Rightarrow> tool_call list \<Rightarrow> string \<Rightarrow> string \<Rightarrow> string \<Rightarrow> handler_state
     \<Rightarrow> (error + dispatch_result list) \<times> handler_state"
where
  "sendToolCalls parse post toolCalls tid rid eid st =
     (case getWebhookUrlForEmployee eid of
        Inl err \<Rightarrow> (Inl err, st)
      | Inr url \<Rightarrow>
          (case employee_of eid of
             None \<Rightarrow> (Inl (Error ''Cannot read properties of undefined (reading 'name')''), st)
           | Some emp \<Rightarrow>
               (case dispatch_all parse post url emp tid rid eid toolCalls st of
                  (results, st1) \<Rightarrow> (Inr results, st1))))"

subsection \<open>processWebhookResponse\<close>

text \<open>The body of a request to \<open>/webhook-response\<close>, which is \<open>responseData\<close>.\<close>

record response_data =
  tool_call_id :: "json option"
  output_value :: "json option"
  thread_id :: "json option"
  run_id :: "json option"

text \<open>Lines 254 to 270: the list \<open>validationErrors\<close>.\<close>

definition validationErrors :: "response_data \<Rightarrow> string list" where
  "validationErrors r =
     (if \<not> truthy (tool_call_id r) \<or> \<not> is_string (tool_call_id r)
      then [''tool_call_id must be a non-empty string''] else [])
     @ (if output_value r = None \<or> output_value r = Some JNull
        then [''output cannot be undefined or null''] else [])
     @ (if \<not> truthy (thread_id r) \<or> \<not> is_string (thread_id r)
        then [''thread_id must be a non-empty string''] else [])
     @ (if \<not> truthy (run_id r) \<or> \<not> is_string (run_id r)
        then [''run_id must be a non-empty string''] else [])"

text \<open>The calls of \<open>console.warn\<close> in \<open>processWebhookResponse\<close>, by line.\<close>

datatype warning =
    LargeOutput nat
  | NoPendingCallFound string
  | AvailableIds "string list"
  | SimilarIds "string list"
  | WithoutPendingValidation

text \<open>
  Lines 282 to 295: the text of the output, by its \<open>typeof\<close>. \<open>typeof null\<close> is
  \<open>'object'\<close>, and \<open>JSON.stringify(undefined)\<close> is \<open>undefined\<close> (\<open>None\<close>).
\<close>

fun output_text :: "json option \<Rightarrow> string option" where
  "output_text None = None"
| "output_text (Some (JStr s)) = Some (js_trim s)"
| "output_text (Some (JNum n)) = Some (number_to_string n)"
| "output_text (Some (JBool b)) = Some (if b then ''true'' else ''false'')"
| "output_text (Some v) = Some (stringify ''  '' [] v)"

definition size_limit :: nat where
  "size_limit = 100000"

definition truncation_marker :: string where
  "truncation_marker = [CHR 0x0A, CHR 0x0A] @ ''[Output truncated due to size limit]''"

text \<open>Lines 280 to 312: the processed output and its warnings, or the error thrown.\<close>

definition processOutput :: "json option \<Rightarrow> error + string \<times> warning list" where
  "processOutput out =
     (case output_text out of
        None \<Rightarrow> Inl (Error (''Invalid output format: '' @ ''Processed output is empty''))
      | Some processedOutput \<Rightarrow>
          if processedOutput = [] \<or> js_trim processedOutput = []
          then Inl (Error (''Invalid output format: '' @ ''Processed output is empty''))
          else if length processedOutput > size_limit
          then Inr (take size_limit processedOutput @ truncation_marker,
                    [LargeOutput (length processedOutput)])
          else Inr (processedOutput, []))"

text \<open>The string of a field that validation has found to be a string.\<close>

fun string_of :: "json option \<Rightarrow> string" where
  "string_of (Some (JStr s)) = s"
| "string_of v = []"

record processed_response =
  r_tool_call_id :: string
  r_output :: string
  r_thread_id :: string
  r_run_id :: string
  employee_id :: string
  employee_name :: "string option"
  processed_at :: int
  output_size :: nat
  validation_passed :: bool

text \<open>Lines 325 to 327: the stored identifiers that resemble the one received.\<close>

definition similarIds :: "string \<Rightarrow> string list \<Rightarrow> string list" where
  "similarIds tcid ids =
     filter (\<lambda>i. str_includes i (take 10 tcid) \<or> str_includes tcid (take 10 i)) ids"

text \<open>Lines 368 to 378: \<open>processedResponse\<close>; \<open>found\<close> is \<open>pendingCall\<close>.\<close>

definition processedResponse ::
  "string \<Rightarrow> string \<Rightarrow> string \<Rightarrow> string \<Rightarrow> pending_call option \<Rightarrow> int \<Rightarrow> processed_response"
where
  "processedResponse tcid out tid rid found now =
     \<lparr>r_tool_call_id = tcid, r_output = out, r_thread_id = tid, r_run_id = rid,
      employee_id =
        (case found of
           None \<Rightarrow> ''unknown''
         | Some pendingCall \<Rightarrow>
             if employeeId pendingCall = [] then ''unknown'' else employeeId pendingCall),
      employee_name =
        (case found of
           None \<Rightarrow> Some ''unknown''
         | Some pendingCall \<Rightarrow>
             if employeeId pendingCall = [] then Some ''unknown''
             else map_option emp_name (employee_of (employeeId pendingCall))),
      processed_at = now, output_size = length out, validation_passed = True\<rparr>"

text \<open>
  \<open>processWebhookResponse(responseData)\<close>: the value returned or the error thrown, the
  warnings it logs, and the state it leaves.
\<close>

definition processWebhookResponse ::
  "response_data \<Rightarrow> handler_state
     \<Rightarrow> (error + processed_response) \<times> warning list \<times> handler_state"
where
  "processWebhookResponse r st =
     (if validationErrors r \<noteq> []
      then (Inl (Error (''Webhook response validation failed: '' @ join '', '' (validationErrors r))),
            [], st)
      else
        (case processOutput (output_value r) of
           Inl err \<Rightarrow> (Inl err, [], st)
         | Inr (processedOutput, ws) \<Rightarrow>
             (let tcid = string_of (tool_call_id r);
                  tid = string_of (thread_id r);
                  rid = string_of (run_id r)
              in case map_of (pendingCalls st) tcid of
                   None \<Rightarrow>
                     (Inr (processedResponse tcid processedOutput tid rid None (clock st)),
                      ws @ [NoPendingCallFound tcid, AvailableIds (map fst (pendingCalls st))]
                         @ (if similarIds tcid (map fst (pendingCalls st)) \<noteq> []
                            then [SimilarIds (similarIds tcid (map fst (pendingCalls st)))]
                            else [])
                         @ [WithoutPendingValidation],
                      st)
                 | Some pendingCall \<Rightarrow>
                     if threadId pendingCall \<noteq> tid
                     then (Inl (Error (''Thread ID mismatch! Expected: '' @ threadId pendingCall
                                  @ '', Received: '' @ tid)), ws, st)
                     else if runId pendingCall \<noteq> rid
                     then (Inl (Error (''Run ID mismatch! Expected: '' @ runId pendingCall
                                  @ '', Received: '' @ rid)), ws, st)
                     else
                       (Inr (processedResponse tcid processedOutput tid rid (Some pendingCall)
                               (clock st)),
                        ws,
                        st\<lparr>pendingCalls :=
                             AList.delete tcid
                               (AList.update tcid
                                  (pendingCall\<lparr>processedAt := Some (clock st),
                                               status := Some ''processed''\<rparr>)
                                  (pendingCalls st))\<rparr>))))"

subsection \<open>cleanupPendingCalls\<close>

text \<open>The body of the \<open>for\<close> loop of lines 445 to 460, for one entry of the map.\<close>

definition sweep_entry ::
  "int \<Rightarrow> string \<times> pending_call \<Rightarrow> (string \<times> pending_call) list \<Rightarrow> (string \<times> pending_call) list"
where
  "sweep_entry now entry calls =
     (let twoHoursAgo = now - (2 * 60 * 60 * 1000);
          oneDayAgo = now - (24 * 60 * 60 * 1000)
      in if timestamp (snd entry) < oneDayAgo then AList.delete (fst entry) calls
         else if timestamp (snd entry) < twoHoursAgo \<and> status (snd entry) = Some ''failed''
         then AList.delete (fst entry) calls
         else calls)"

text \<open>\<open>cleanupPendingCalls()\<close>: the loop visits the entries the map holds at the call.\<close>

definition cleanupPendingCalls :: "handler_state \<Rightarrow> handler_state" where
  "cleanupPendingCalls st =
     st\<lparr>pendingCalls := fold (sweep_entry (clock st)) (pendingCalls st) (pendingCalls st)\<rparr>"

subsection \<open>getPendingCalls\<close>

text \<open>
  \<open>getPendingCalls()\<close>: the entries with their identifier and \<open>status\<close> defaulted to
  \<open>'pending'\<close> (the derived \<open>employeeName\<close> and \<open>age_seconds\<close> are left out).
\<close>

definition getPendingCalls :: "handler_state \<Rightarrow> (string \<times> pending_call) list" where
  "getPendingCalls st =
     map (\<lambda>entry.
            (fst entry,
             (snd entry)\<lparr>status :=
                Some (case status (snd entry) of
                        None \<Rightarrow> ''pending''
                      | Some s \<Rightarrow> if s = [] then ''pending'' else s)\<rparr>))
         (pendingCalls st)"

section \<open>Request validation (the validation middleware)\<close>

text \<open>
  What a route does with a request: it answers with a status code and a JSON body (given
  by its \<open>error\<close> field and its further fields), it passes an error on with \<open>next\<close>, or
  it goes on to the steps after the ones modelled here.
\<close>

datatype 'a outcome =
    Respond nat string "(string \<times> json) list"
  | NextError string
  | GoesOn 'a

text \<open>\<open>validateWebhookResponse\<close>: \<open>None\<close> is the call of \<open>next()\<close>.\<close>

definition validateWebhookResponse :: "response_data \<Rightarrow> (nat \<times> string \<times> (string \<times> json) list) option" where
  "validateWebhookResponse body =
     (let requiredFields =
            [(''tool_call_id'', tool_call_id body), (''output'', output_value body),
             (''thread_id'', thread_id body), (''run_id'', run_id body)];
          missingFields = filter (\<lambda>item. \<not> truthy (snd item)) requiredFields
      in if length missingFields > 0
         then Some (400, ''Missing required fields'',
                    [(''details'', JStr (''Missing: '' @ join '', '' (map fst missingFields)))])
         else if \<not> is_string (tool_call_id body) \<or> \<not> is_string (thread_id body)
                 \<or> \<not> is_string (run_id body)
         then Some (400, ''Invalid field types'',
                    [(''details'', JStr ''tool_call_id, thread_id, and run_id must be strings'')])
         else None)"

text \<open>The body of a request to \<open>/ask\<close>; \<open>employee\<close> and \<open>thread_id\<close> are strings when
  they are present.\<close>

record ask_request =
  ask_message :: "json option"
  ask_employee :: "string option"
  ask_thread_id :: "string option"

definition validateAskRequest :: "ask_request \<Rightarrow> (nat \<times> string \<times> (string \<times> json) list) option" where
  "validateAskRequest req =
     (if \<not> truthy (ask_message req) \<or> \<not> is_string (ask_message req)
         \<or> length (js_trim (string_of (ask_message req))) = 0
      then Some (400, ''Missing or invalid message field'',
                 [(''details'', JStr ''Message must be a non-empty string'')])
      else if length (string_of (ask_message req)) > 4000
      then Some (400, ''Message too long'',
                 [(''details'', JStr ''Message must be less than 4000 characters'')])
      else None)"

section \<open>The routes\<close>

subsection \<open>POST /webhook-response, to the end of the processing loop\<close>

text \<open>
  The loop of lines 1135 to 1156 around \<open>processWebhookResponse\<close>; \<open>k\<close> is the number of
  retries left after this attempt (the route starts with \<open>processRetries = 3\<close>, so with 2).
\<close>

fun process_loop ::
  "nat \<Rightarrow> response_data \<Rightarrow> handler_state \<Rightarrow> (error + processed_response) \<times> handler_state"
where
  "process_loop 0 body st =
     (case processWebhookResponse body st of (res, ws, st1) \<Rightarrow> (res, st1))"
| "process_loop (Suc k) body st =
     (case processWebhookResponse body st of
        (Inr processed, ws, st1) \<Rightarrow> (Inr processed, st1)
      | (Inl err, ws, st1) \<Rightarrow> process_loop k body (wait 500 st1))"

text \<open>
  The route up to line 1156: the middleware, the check of the services, the processing
  loop. After a processed response the route goes on to submit the output to the provider.
\<close>

definition webhook_response_route ::
  "bool \<Rightarrow> response_data \<Rightarrow> handler_state \<Rightarrow> processed_response outcome \<times> handler_state"
where
  "webhook_response_route services body st =
     (case validateWebhookResponse body of
        Some (code, err, body_fields) \<Rightarrow> (Respond code err body_fields, st)
      | None \<Rightarrow>
          if \<not> services
          then (Respond 503 ''Service unavailable''
                  [(''details'', JStr ''Services are not properly configured.'')], st)
          else (case process_loop 2 body st of
                  (Inr processed, st1) \<Rightarrow> (GoesOn processed, st1)
                | (Inl err, st1) \<Rightarrow> (NextError (message err), st1)))"

subsection \<open>POST /ask, to the start of the run\<close>

text \<open>
  The provider is outside the repository. The route's calls to it are recorded in order,
  and each operation answers from the calls made before it and its arguments: it throws an
  error with a message (\<open>Inl\<close>) or returns.
\<close>

datatype provider_call =
    ListRuns string
  | CreateThread
  | AddMessage string string
  | RunAssistant string string

record run_info =
  run_ident :: string
  run_status :: string

record provider =
  runs_list :: "provider_call list \<Rightarrow> string \<Rightarrow> string + run_info list"
  createThread :: "provider_call list \<Rightarrow> string + string"
  addMessage :: "provider_call list \<Rightarrow> string \<Rightarrow> string \<Rightarrow> string + unit"
  runAssistant :: "provider_call list \<Rightarrow> string \<Rightarrow> string \<Rightarrow> string + string"

text \<open>
  The three retry loops of steps 1 to 3 (lines 893 to 905, 911 to 928, 934 to 946); \<open>k\<close> is
  the number of retries left after this attempt (each loop starts with 3 retries, so with 2).
\<close>

fun create_thread_loop ::
  "provider \<Rightarrow> nat \<Rightarrow> provider_call list \<Rightarrow> handler_state
     \<Rightarrow> (error + string) \<times> provider_call list \<times> handler_state"
where
  "create_thread_loop pr 0 calls st =
     (case createThread pr calls of
        Inr tid \<Rightarrow> (Inr tid, calls @ [CreateThread], st)
      | Inl msg \<Rightarrow> (Inl (Error msg), calls @ [CreateThread], st))"
| "create_thread_loop pr (Suc k) calls st =
     (case createThread pr calls of
        Inr tid \<Rightarrow> (Inr tid, calls @ [CreateThread], st)
      | Inl msg \<Rightarrow> create_thread_loop pr k (calls @ [CreateThread]) (wait 1000 st))"

definition active_run_error :: "string \<Rightarrow> bool" where
  "active_run_error msg = (msg \<noteq> [] \<and> str_includes msg ''while a run'' \<and> str_includes msg ''is active'')"

definition cannot_add_message :: "employee \<Rightarrow> error" where
  "cannot_add_message emp =
     Error (''Cannot add message to '' @ emp_name emp @ [CHR 0x27]
       @ ''s thread while processing. Please wait for the current operation to complete or check for pending tool calls.'')"

fun add_message_loop ::
  "provider \<Rightarrow> employee \<Rightarrow> string \<Rightarrow> string \<Rightarrow> nat \<Rightarrow> provider_call list \<Rightarrow> handler_state
     \<Rightarrow> (error + unit) \<times> provider_call list \<times> handler_state"
where
  "add_message_loop pr emp tid msg 0 calls st =
     (case addMessage pr calls tid msg of
        Inr u \<Rightarrow> (Inr (), calls @ [AddMessage tid msg], st)
      | Inl m \<Rightarrow>
          if active_run_error m then (Inl (cannot_add_message emp), calls @ [AddMessage tid msg], st)
          else (Inl (Error m), calls @ [AddMessage tid msg], st))"
| "add_message_loop pr emp tid msg (Suc k) calls st =
     (case addMessage pr calls tid msg of
        Inr u \<Rightarrow> (Inr (), calls @ [AddMessage tid msg], st)
      | Inl m \<Rightarrow>
          if active_run_error m then (Inl (cannot_add_message emp), calls @ [AddMessage tid msg], st)
          else add_message_loop pr emp tid msg k (calls @ [AddMessage tid msg]) (wait 1000 st))"

fun run_assistant_loop ::
  "provider \<Rightarrow> string \<Rightarrow> string \<Rightarrow> nat \<Rightarrow> provider_call list \<Rightarrow> handler_state
     \<Rightarrow> (error + string) \<times> provider_call list \<times> handler_state"
where
  "run_assistant_loop pr tid aid 0 calls st =
     (case runAssistant pr calls tid aid of
        Inr rid \<Rightarrow> (Inr rid, calls @ [RunAssistant tid aid], st)
      | Inl m \<Rightarrow> (Inl (Error m), calls @ [RunAssistant tid aid], st))"
| "run_assistant_loop pr tid aid (Suc k) calls st =
     (case runAssistant pr calls tid aid of
        Inr rid \<Rightarrow> (Inr rid, calls @ [RunAssistant tid aid], st)
      | Inl m \<Rightarrow> run_assistant_loop pr tid aid k (calls @ [RunAssistant tid aid]) (wait 1000 st))"

text \<open>
  Steps 2 and 3 (lines 908 to 946) on the thread \<open>tid\<close>: the message is appended and the
  run started. A thrown error reaches the \<open>catch\<close> of line 1076, which calls \<open>next\<close>.
  After the run has started the route goes on to poll it (thread and run identifiers).
\<close>

definition append_and_run ::
  "provider \<Rightarrow> employee \<Rightarrow> string \<Rightarrow> string \<Rightarrow> provider_call list \<Rightarrow> handler_state
     \<Rightarrow> (string \<times> string) outcome \<times> provider_call list \<times> handler_state"
where
  "append_and_run pr emp msg tid calls st =
     (case add_message_loop pr emp tid msg 2 calls st of
        (Inl err, calls1, st1) \<Rightarrow> (NextError (message err), calls1, st1)
      | (Inr u, calls1, st1) \<Rightarrow>
          (case run_assistant_loop pr tid (emp_assistantId emp) 2 calls1 st1 of
             (Inl err, calls2, st2) \<Rightarrow> (NextError (message err), calls2, st2)
           | (Inr rid, calls2, st2) \<Rightarrow> (GoesOn (tid, rid), calls2, st2)))"

text \<open>The run states the route treats as active (line 853).\<close>

definition active_statuses :: "string list" where
  "active_statuses = [''queued'', ''in_progress'', ''requires_action'']"

text \<open>
  The check of lines 844 to 888 on an existing thread: \<open>Some\<close> is the 409 answer, \<open>None\<close>
  lets the route proceed. \<open>listed\<close> is what \<open>runs.list(threadId, {limit: 1})\<close> did.
\<close>

definition busy_check ::
  "employee \<Rightarrow> string \<Rightarrow> string + run_info list \<Rightarrow> handler_state
     \<Rightarrow> (nat \<times> string \<times> (string \<times> json) list) option"
where
  "busy_check emp tid listed st =
     (case listed of
        Inl runCheckError \<Rightarrow> None
      | Inr [] \<Rightarrow> None
      | Inr (latestRun # older) \<Rightarrow>
          if run_status latestRun \<in> set active_statuses
          then if run_status latestRun = ''requires_action''
               then (let pending =
                           filter (\<lambda>call. threadId (snd call) = tid
                                     \<and> runId (snd call) = run_ident latestRun)
                             (getPendingCalls st)
                     in if length pending > 0
                        then Some (409, ''Thread busy with tool calls'',
                               [(''details'', JStr (emp_name emp @ '' is currently processing ''
                                   @ nat_to_string (length pending)
                                   @ '' tool call(s). Please wait for completion or send the webhook response.'')),
                                (''thread_id'', JStr tid),
                                (''run_id'', JStr (run_ident latestRun)),
                                (''pending_tool_calls'', JNum (int (length pending))),
                                (''status'', JStr ''requires_action'')])
                        else None)
               else Some (409, ''Thread busy'',
                      [(''details'', JStr (emp_name emp
                          @ '' is currently processing another request. Please wait for completion.'')),
                       (''thread_id'', JStr tid),
                       (''run_id'', JStr (run_ident latestRun)),
                       (''current_status'', JStr (run_status latestRun))])
          else None)"

text \<open>
  The route to the end of step 3: the middleware, the checks of lines 797 to 834, step 1
  on an existing thread (a non-empty \<open>thread_id\<close>) or a new one, then steps 2 and 3. The
  \<open>employee\<close> field of the answers (the employee's configuration) and the \<open>details\<close> of
  the answer of line 829 are left out.
\<close>

definition ask_route ::
  "bool \<Rightarrow> provider \<Rightarrow> ask_request \<Rightarrow> handler_state
     \<Rightarrow> (string \<times> string) outcome \<times> provider_call list \<times> handler_state"
where
  "ask_route services pr req st =
     (case validateAskRequest req of
        Some (code, err, body_fields) \<Rightarrow> (Respond code err body_fields, [], st)
      | None \<Rightarrow>
          if \<not> services
          then (Respond 503 ''Service unavailable''
                  [(''details'', JStr ''OpenAI service is not properly configured. Please check your environment variables.'')],
                [], st)
          else
            (let emp_id = (case ask_employee req of None \<Rightarrow> ''brenden'' | Some e \<Rightarrow> e);
                 msg = string_of (ask_message req)
             in case employee_of emp_id of
                  None \<Rightarrow>
                    (Respond 404 ''Employee not found''
                       [(''details'', JStr (''Employee '' @ [CHR 0x27] @ emp_id @ [CHR 0x27]
                                             @ '' is not configured''))],
                     [], st)
                | Some emp \<Rightarrow>
                    if str_includes (emp_assistantId emp) ''placeholder''
                    then (Respond 503 ''Assistant not configured'' [], [], st)
                    else
                      (case ask_thread_id req of
                         Some (c # cs) \<Rightarrow>
                           (case busy_check emp (c # cs) (runs_list pr [] (c # cs)) st of
                              Some (code, err, body_fields) \<Rightarrow>
                                (Respond code err body_fields, [ListRuns (c # cs)], st)
                            | None \<Rightarrow> append_and_run pr emp msg (c # cs) [ListRuns (c # cs)] st)
                       | other \<Rightarrow>
                           (case create_thread_loop pr 2 [] st of
                              (Inl err, calls1, st1) \<Rightarrow> (NextError (message err), calls1, st1)
                            | (Inr tid, calls1, st1) \<Rightarrow> append_and_run pr emp msg tid calls1 st1))))"

section \<open>Auxiliary notions and example inputs\<close>

text \<open>The fields of a pending call that are set at its creation and never written again.\<close>

definition same_call :: "pending_call \<Rightarrow> pending_call \<Rightarrow> bool" where
  "same_call a b =
     (threadId a = threadId b \<and> runId a = runId b \<and> employeeId a = employeeId b
      \<and> functionName a = functionName b \<and> timestamp a = timestamp b
      \<and> arguments a = arguments b \<and> webhookUrl a = webhookUrl b \<and> payload a = payload b)"

text \<open>A transport on which every request times out, and a parser that knows one text.\<close>

definition failing_transport :: transport where
  "failing_transport url p attempt = Inl ''timeout of 60000ms exceeded''"

definition parse_example :: json_parse where
  "parse_example src = (if src = ''{}'' then Inr (JObj []) else Inl ''Unexpected end of JSON input'')"

definition example_tool_call :: tool_call where
  "example_tool_call =
     \<lparr>tc_id = ''call_1'', tc_function_name = ''search_leads'', tc_function_arguments = ''{}''\<rparr>"

definition example_payload :: payload where
  "example_payload =
     \<lparr>pl_tool_call_id = ''call_1'', pl_function_name = ''search_leads'', pl_arguments = JObj [],
      pl_thread_id = ''thread_1'', pl_run_id = ''run_1'', pl_employee_id = ''van'',
      pl_employee_name = ''AI Van'', pl_employee_role = ''page operator'', pl_timestamp = 1000,
      pl_retry_count = 0\<rparr>"

definition example_call :: pending_call where
  "example_call =
     \<lparr>threadId = ''thread_1'', runId = ''run_1'', employeeId = ''van'',
      functionName = ''search_leads'', timestamp = 1000, arguments = JObj [], retryCount = 0,
      webhookUrl = ''https://hook.eu2.make.com/6e1mvvrxjd2dm5mbdvlgmxc2sut3r3lk'',
      payload = example_payload, status = None, lastError = None, lastAttempt = None,
      finalError = None, failedAt = None, processedAt = None\<rparr>"

definition empty_state :: handler_state where
  "empty_state = \<lparr>pendingCalls = [], clock = 1000, slept = []\<rparr>"

definition example_state :: handler_state where
  "example_state = \<lparr>pendingCalls = [(''call_1'', example_call)], clock = 1000, slept = []\<rparr>"

text \<open>
  The record that \<open>sendToolCalls\<close> returns for a tool call: \<open>sent\<close> with the data of a
  response of the transport, or \<open>error\<close>; either carries the identifier of the call.
\<close>

definition per_call_record :: "transport \<Rightarrow> string \<Rightarrow> tool_call \<Rightarrow> dispatch_result \<Rightarrow> bool" where
  "per_call_record post url toolCall r =
     (case r of
        Sent s \<Rightarrow>
          toolCallId s = tc_id toolCall \<and> sr_status s = ''sent''
          \<and> (\<exists>p a resp. post url p a = Inr resp \<and> response s = data resp)
      | NotSent e \<Rightarrow>
          er_toolCallId e = tc_id toolCall \<and> er_status e = ''error'')"

text \<open>
  The record of one tool call, written from the single deliveries (\<open>deliver\<close>, one
  request each) instead of the retry loop. \<open>waited a a'\<close> is the time slept between
  attempt \<open>a\<close> and attempt \<open>a'\<close>. \<open>call_outcome\<close> holds of the record \<open>r\<close> of a call
  dispatched at time \<open>now\<close> and of the time \<open>later\<close> at which its dispatch ends: when the
  arguments do not parse, \<open>r\<close> is the error record with the parser's message; when some
  attempt from 1 to 5 is delivered, \<open>r\<close> is the \<open>sent\<close> record of the first such
  delivery; when all five fail, \<open>r\<close> is the error record whose reason is the employee's
  name, \<open>webhook failed after 5 attempts:\<close> and the message of the fifth failure.
  \<open>dispatched\<close> says that every call of the list has the record of its own outcome, each
  dispatched at the time at which the one before it ended.
\<close>

definition waited :: "nat \<Rightarrow> nat \<Rightarrow> int" where
  "waited a a' = int (sum_list (map (backoff_delay retryDelay maxRetryDelay) [a ..< a']))"

definition call_outcome ::
  "json_parse \<Rightarrow> transport \<Rightarrow> string \<Rightarrow> employee \<Rightarrow> string \<Rightarrow> string \<Rightarrow> string \<Rightarrow> int
     \<Rightarrow> tool_call \<Rightarrow> dispatch_result \<Rightarrow> int \<Rightarrow> bool"
where
  "call_outcome parse post url emp tid rid eid now toolCall r later =
     (case parse (tc_function_arguments toolCall) of
        Inl msg \<Rightarrow> r = dispatch_error toolCall eid msg \<and> later = now
      | Inr args \<Rightarrow>
          (let p = \<lparr>pl_tool_call_id = tc_id toolCall,
                    pl_function_name = tc_function_name toolCall,
                    pl_arguments = args, pl_thread_id = tid, pl_run_id = rid,
                    pl_employee_id = eid, pl_employee_name = emp_name emp,
                    pl_employee_role = emp_role emp, pl_timestamp = now,
                    pl_retry_count = 0\<rparr>
           in (\<exists>a sent. 1 \<le> a \<and> a \<le> retryAttempts
                  \<and> deliver post p url a = Inr sent
                  \<and> (\<forall>b. 1 \<le> b \<and> b < a \<longrightarrow> (\<exists>e. deliver post p url b = Inl e))
                  \<and> r = Sent sent \<and> later = now + waited 1 a)
              \<or> (\<exists>msg. (\<forall>b. 1 \<le> b \<and> b < retryAttempts \<longrightarrow> (\<exists>e. deliver post p url b = Inl e))
                  \<and> deliver post p url retryAttempts = Inl (Error msg)
                  \<and> r = dispatch_error toolCall eid
                          (emp_name emp @ '' webhook failed after 5 attempts: '' @ msg)
                  \<and> later = now + waited 1 retryAttempts)))"

fun dispatched ::
  "json_parse \<Rightarrow> transport \<Rightarrow> string \<Rightarrow> employee \<Rightarrow> string \<Rightarrow> string \<Rightarrow> string \<Rightarrow> int
     \<Rightarrow> tool_call list \<Rightarrow> dispatch_result list \<Rightarrow> bool"
where
  "dispatched parse post url emp tid rid eid now [] rs = (rs = [])"
| "dispatched parse post url emp tid rid eid now (toolCall # toolCalls) rs =
     (\<exists>r rest later. rs = r # rest
        \<and> call_outcome parse post url emp tid rid eid now toolCall r later
        \<and> dispatched parse post url emp tid rid eid later toolCalls rest)"

text \<open>A transport that times out on every request for \<open>call_1\<close> and accepts every other
  request, and a second tool call.\<close>

definition selective_transport :: transport where
  "selective_transport url p attempt =
     (if pl_tool_call_id p = ''call_1'' then Inl ''timeout of 60000ms exceeded''
      else Inr \<lparr>http_status = 200, statusText = ''OK'',
                data = JObj [(''accepted'', JBool True)], x_response_time = None\<rparr>)"

definition second_tool_call :: tool_call where
  "second_tool_call =
     \<lparr>tc_id = ''call_2'', tc_function_name = ''send_email'', tc_function_arguments = ''{}''\<rparr>"

text \<open>The two ages of the sweep, in milliseconds, and the condition under which the loop
  deletes an entry.\<close>

definition two_hours :: int where
  "two_hours = 2 * 60 * 60 * 1000"

definition one_day :: int where
  "one_day = 24 * 60 * 60 * 1000"

definition swept :: "int \<Rightarrow> pending_call \<Rightarrow> bool" where
  "swept now call =
     (timestamp call < now - one_day
      \<or> (timestamp call < now - two_hours \<and> status call = Some ''failed''))"

text \<open>A map with a fresh call, a failed call three hours old and a call 25 hours old.\<close>

definition old_failed_state :: handler_state where
  "old_failed_state =
     \<lparr>pendingCalls =
        [(''call_1'', example_call),
         (''call_2'', example_call\<lparr>timestamp := 1000 - 3 * 60 * 60 * 1000, status := Some ''failed''\<rparr>),
         (''call_3'', example_call\<lparr>timestamp := 1000 - 25 * 60 * 60 * 1000\<rparr>)],
      clock = 1000, slept = []\<rparr>"

text \<open>A string that is empty or has no white space at either end.\<close>

definition trimmed :: "string \<Rightarrow> bool" where
  "trimmed s = (s = [] \<or> (\<not> js_whitespace (hd s) \<and> \<not> js_whitespace (last s)))"

text \<open>
  A structurally valid inbound result: one that passes the field validation of
  \<open>processWebhookResponse\<close> (lines 254 to 277) and whose output the output processing
  (lines 280 to 312) accepts.
\<close>

definition well_formed :: "response_data \<Rightarrow> bool" where
  "well_formed r =
     (validationErrors r = []
      \<and> (case processOutput (output_value r) of Inl err \<Rightarrow> False | Inr processed \<Rightarrow> True))"

text \<open>An output of 100001 characters, and inbound results for the call of \<open>example_state\<close>:
  one that answers it, one for an identifier that is not stored, one with another thread
  and a blank output, one with another run, one whose output is \<open>false\<close>, and two that
  answer it with a blank and with an empty output.\<close>

definition long_output :: "json option" where
  "long_output = Some (JStr (replicate 100001 CHR ''a''))"

definition matching_result :: response_data where
  "matching_result =
     \<lparr>tool_call_id = Some (JStr ''call_1''), output_value = Some (JStr ''42 leads found''),
      thread_id = Some (JStr ''thread_1''), run_id = Some (JStr ''run_1'')\<rparr>"

definition stray_result :: response_data where
  "stray_result = matching_result\<lparr>tool_call_id := Some (JStr ''call_9'')\<rparr>"

definition blank_mismatch_result :: response_data where
  "blank_mismatch_result =
     matching_result\<lparr>output_value := Some (JStr '' ''), thread_id := Some (JStr ''thread_2'')\<rparr>"

definition mismatch_result :: response_data where
  "mismatch_result = matching_result\<lparr>run_id := Some (JStr ''run_2'')\<rparr>"

definition false_result :: response_data where
  "false_result = matching_result\<lparr>output_value := Some (JBool False)\<rparr>"

definition blank_matching_result :: response_data where
  "blank_matching_result = matching_result\<lparr>output_value := Some (JStr '' '')\<rparr>"

definition empty_output_result :: response_data where
  "empty_output_result = matching_result\<lparr>output_value := Some (JStr [])\<rparr>"

text \<open>
  A provider on which the latest run of every thread waits for tool outputs
  (\<open>requires_action\<close>) and which, as the provider does while a run is active, refuses a new
  message; and a request that continues the thread \<open>thread_1\<close>.
\<close>

definition active_run_provider :: provider where
  "active_run_provider =
     \<lparr>runs_list = (\<lambda>calls tid. Inr [\<lparr>run_ident = ''run_1'', run_status = ''requires_action''\<rparr>]),
      createThread = (\<lambda>calls. Inr ''thread_2''),
      addMessage = (\<lambda>calls tid msg.
         Inl (''Can'' @ [CHR 0x27] @ ''t add messages to '' @ tid
              @ '' while a run run_1 is active.'')),
      runAssistant = (\<lambda>calls tid aid. Inr ''run_2'')\<rparr>"

definition continue_request :: ask_request where
  "continue_request =
     \<lparr>ask_message = Some (JStr ''hello''), ask_employee = None,
      ask_thread_id = Some ''thread_1''\<rparr>"

section \<open>Properties of sendWebhookWithRetry\<close>

lemma note_retry_frame [simp]:
  "slept (note_retry k a m st) = slept st" "clock (note_retry k a m st) = clock st"
  by (simp_all add: note_retry_def split: option.splits)

lemma note_failed_frame [simp]:
  "slept (note_failed k m st) = slept st" "clock (note_failed k m st) = clock st"
  by (simp_all add: note_failed_def split: option.splits)

lemma wait_simps [simp]:
  "slept (wait d st) = slept st @ [d]" "clock (wait d st) = clock st + int d"
  "pendingCalls (wait d st) = pendingCalls st"
  by (simp_all add: wait_def)

lemma nat_to_string_retryAttempts: "nat_to_string retryAttempts = ''5''"
  by (simp add: nat_to_string.simps retryAttempts_def digit_char_def)

lemma backoff_values:
  "map (backoff_delay retryDelay maxRetryDelay) [1, 2, 3, 4, 5] = [2000, 4000, 8000, 10000, 10000]"
  by (simp add: backoff_delay_def retryDelay_def maxRetryDelay_def)

text \<open>While every delivery fails, the handler waits the backoff delay after each attempt
  but the last.\<close>

lemma waits_when_failing:
  "(\<forall>a. attempt \<le> a \<and> a \<le> retryAttempts \<longrightarrow> (\<exists>e. deliver post p url a = Inl e))
   \<Longrightarrow> attempt \<le> retryAttempts
   \<Longrightarrow> slept (snd (sendWebhookWithRetry post p url attempt st))
       = slept st @ map (backoff_delay retryDelay maxRetryDelay) [attempt ..< retryAttempts]"
proof (induction post p url attempt st rule: sendWebhookWithRetry.induct)
  case (1 post p url attempt st)
  from "1.prems" obtain e where e: "deliver post p url attempt = Inl e"
    by blast
  show ?case
  proof (cases "attempt < retryAttempts")
    case True
    have "slept (snd (sendWebhookWithRetry post p url (attempt + 1)
             (wait (backoff_delay retryDelay maxRetryDelay attempt)
                (note_retry (pl_tool_call_id p) attempt (message e) st))))
          = slept (wait (backoff_delay retryDelay maxRetryDelay attempt)
                (note_retry (pl_tool_call_id p) attempt (message e) st))
            @ map (backoff_delay retryDelay maxRetryDelay) [attempt + 1 ..< retryAttempts]"
      using "1.IH" [OF e True] "1.prems" True by simp
    then show ?thesis
      using e True by (subst sendWebhookWithRetry.simps) (simp add: upt_conv_Cons)
  next
    case False
    with "1.prems" have "attempt = retryAttempts" by simp
    then show ?thesis
      using e by (subst sendWebhookWithRetry.simps) simp
  qed
qed

lemma backoff_waits:
  "map (backoff_delay retryDelay maxRetryDelay) [1 ..< retryAttempts] = [2000, 4000, 8000, 10000]"
  by (simp add: retryAttempts_def upt_conv_Cons backoff_delay_def retryDelay_def maxRetryDelay_def)

text \<open>
  Claim C4. The delay for attempt \<open>n\<close> (from 1 on) is
  \<open>min (baseDelay * 2 ^ (n - 1)) maxDelay\<close>, a function of the attempt number, the base
  delay and the maximum delay alone. With the handler's constants (2000 and 10000) the
  delays for attempts 1 to 5 are 2000, 4000, 8000, 10000, 10000, and when every delivery
  fails \<open>sendWebhookWithRetry\<close> waits exactly the first four of them, whatever the clock
  reads (no wait follows the fifth and last attempt).
\<close>

theorem backoff_delay_deterministic:
  "1 \<le> n \<Longrightarrow>
     backoff_delay baseDelay maxDelay n = min (baseDelay * 2 ^ (n - 1)) maxDelay
     \<and> map (backoff_delay 2000 10000) [1, 2, 3, 4, 5] = [2000, 4000, 8000, 10000, 10000]
     \<and> map (backoff_delay retryDelay maxRetryDelay) [1, 2, 3, 4, 5]
         = [2000, 4000, 8000, 10000, 10000]
     \<and> ((\<forall>a. 1 \<le> a \<and> a \<le> retryAttempts \<longrightarrow> (\<exists>e. deliver post p url a = Inl e))
          \<longrightarrow> slept (snd (sendWebhookWithRetry post p url 1 st))
                = slept st @ [2000, 4000, 8000, 10000])"
proof -
  have formula: "backoff_delay baseDelay maxDelay n = min (baseDelay * 2 ^ (n - 1)) maxDelay"
    by (simp add: backoff_delay_def)
  have table: "map (backoff_delay 2000 10000) [1, 2, 3, 4, 5] = [2000, 4000, 8000, 10000, 10000]"
    by (simp add: backoff_delay_def)
  have waits: "slept (snd (sendWebhookWithRetry post p url 1 st)) = slept st @ [2000, 4000, 8000, 10000]"
    if "\<forall>a. 1 \<le> a \<and> a \<le> retryAttempts \<longrightarrow> (\<exists>e. deliver post p url a = Inl e)"
  proof -
    have "1 \<le> retryAttempts"
      by (simp add: retryAttempts_def)
    from waits_when_failing [OF that this, of st] show ?thesis
      by (simp only: backoff_waits)
  qed
  from formula table backoff_values waits show ?thesis
    by blast
qed

theorem backoff_delay_deterministic_witness:
  "backoff_delay 2000 10000 3 = 8000
   \<and> slept (snd (sendWebhookWithRetry failing_transport example_payload ''https://hook.example'' 1
                  example_state))
       = [2000, 4000, 8000, 10000]"
proof -
  have n: "(1 :: nat) \<le> 3"
    by simp
  have fails: "\<forall>a. 1 \<le> a \<and> a \<le> retryAttempts
                 \<longrightarrow> (\<exists>e. deliver failing_transport example_payload ''https://hook.example'' a = Inl e)"
    by (simp add: deliver_def failing_transport_def)
  have start: "slept example_state = []"
    by (simp add: example_state_def)
  from backoff_delay_deterministic
         [OF n, where baseDelay = 2000 and maxDelay = 10000 and post = failing_transport
            and p = example_payload and url = "''https://hook.example''" and st = example_state]
       fails
  show ?thesis
    by (simp add: start)
qed

lemma keys_update_present:
  "map_of al k = Some v \<Longrightarrow> map fst (AList.update k v' al) = map fst al"
  by (simp add: update_keys weak_map_of_SomeI image_iff) (metis map_of_SomeD fst_conv image_iff)

lemma note_retry_keys [simp]:
  "map fst (pendingCalls (note_retry k a m st)) = map fst (pendingCalls st)"
  by (simp add: note_retry_def keys_update_present split: option.splits)

lemma note_failed_keys [simp]:
  "map fst (pendingCalls (note_failed k m st)) = map fst (pendingCalls st)"
  by (simp add: note_failed_def keys_update_present split: option.splits)

lemma note_retry_lookup:
  "map_of (pendingCalls (note_retry k a m st)) k' =
     (if k' = k
      then map_option (\<lambda>pc. pc\<lparr>retryCount := a, lastError := Some m, lastAttempt := Some (clock st)\<rparr>)
             (map_of (pendingCalls st) k)
      else map_of (pendingCalls st) k')"
  by (simp add: note_retry_def update_conv' split: option.splits)

lemma note_failed_lookup:
  "map_of (pendingCalls (note_failed k m st)) k' =
     (if k' = k
      then map_option (\<lambda>pc. pc\<lparr>status := Some ''failed'', finalError := Some m, failedAt := Some (clock st)\<rparr>)
             (map_of (pendingCalls st) k)
      else map_of (pendingCalls st) k')"
  by (simp add: note_failed_def update_conv' split: option.splits)

text \<open>When every attempt from \<open>attempt\<close> to the last one fails: the error thrown, the
  keys of the map, the entry of the call and the other entries.\<close>

lemma exhausted_gen:
  "(\<forall>a. attempt \<le> a \<and> a \<le> retryAttempts \<longrightarrow> deliver post p url a = Inl (Error (msg a)))
   \<Longrightarrow> attempt \<le> retryAttempts
   \<Longrightarrow> map_of (pendingCalls st) (pl_tool_call_id p) = Some pc
   \<Longrightarrow> fst (sendWebhookWithRetry post p url attempt st)
         = Inl (Error (pl_employee_name p @ '' webhook failed after 5 attempts: '' @ msg retryAttempts))
       \<and> map fst (pendingCalls (snd (sendWebhookWithRetry post p url attempt st)))
           = map fst (pendingCalls st)
       \<and> (\<exists>pc'. map_of (pendingCalls (snd (sendWebhookWithRetry post p url attempt st)))
                    (pl_tool_call_id p) = Some pc'
                \<and> status pc' = Some ''failed'' \<and> finalError pc' = Some (msg retryAttempts)
                \<and> same_call pc pc')
       \<and> (\<forall>k. k \<noteq> pl_tool_call_id p \<longrightarrow>
              map_of (pendingCalls (snd (sendWebhookWithRetry post p url attempt st))) k
                = map_of (pendingCalls st) k)"
proof (induction post p url attempt st arbitrary: pc rule: sendWebhookWithRetry.induct)
  case (1 post p url attempt st)
  have e: "deliver post p url attempt = Inl (Error (msg attempt))"
    using "1.prems" by simp
  show ?case
  proof (cases "attempt < retryAttempts")
    case True
    let ?st1 = "wait (backoff_delay retryDelay maxRetryDelay attempt)
                  (note_retry (pl_tool_call_id p) attempt (message (Error (msg attempt))) st)"
    let ?pc1 = "pc\<lparr>retryCount := attempt, lastError := Some (msg attempt),
                     lastAttempt := Some (clock st)\<rparr>"
    have entry: "map_of (pendingCalls ?st1) (pl_tool_call_id p) = Some ?pc1"
      using "1.prems"(3) by (simp add: note_retry_lookup)
    have fails: "\<forall>a. attempt + 1 \<le> a \<and> a \<le> retryAttempts \<longrightarrow> deliver post p url a = Inl (Error (msg a))"
      using "1.prems"(1) by simp
    have le: "attempt + 1 \<le> retryAttempts"
      using True by simp
    note ih = "1.IH" [OF e True fails le entry]
    have unfold: "sendWebhookWithRetry post p url attempt st
                  = sendWebhookWithRetry post p url (attempt + 1) ?st1"
      using e True by (subst sendWebhookWithRetry.simps) simp
    have same: "\<And>pc'. same_call ?pc1 pc' \<Longrightarrow> same_call pc pc'"
      by (simp add: same_call_def)
    show ?thesis
      unfolding unfold using ih same by (auto simp: note_retry_lookup)
  next
    case False
    with "1.prems" have eq: "attempt = retryAttempts" by simp
    have unfold: "sendWebhookWithRetry post p url attempt st
                  = (Inl (Error (pl_employee_name p @ '' webhook failed after ''
                       @ nat_to_string retryAttempts @ '' attempts: '' @ msg attempt)),
                     note_failed (pl_tool_call_id p) (msg attempt) st)"
      using e False by (subst sendWebhookWithRetry.simps) simp
    show ?thesis
      unfolding unfold using "1.prems"(3) eq
      by (simp add: note_failed_lookup nat_to_string_retryAttempts same_call_def)
  qed
qed

text \<open>
  Claim C7. When every attempt of \<open>sendWebhookWithRetry\<close> up to the last (the fifth) fails,
  it throws to its caller an error that carries the last failure's message; the stored
  pending call of the tool call is still in the map, with \<open>status\<close> \<open>'failed'\<close> and
  \<open>finalError\<close> the last failure's message and its creation fields untouched; no key is
  added to or removed from the map, and no other entry changes.
\<close>

theorem sendWebhookWithRetry_exhausted:
  assumes "\<forall>a. attempt \<le> a \<and> a \<le> retryAttempts \<longrightarrow> deliver post p url a = Inl (Error (msg a))"
    and "attempt \<le> retryAttempts"
    and "map_of (pendingCalls st) (pl_tool_call_id p) = Some pc"
  shows "fst (sendWebhookWithRetry post p url attempt st)
           = Inl (Error (pl_employee_name p @ '' webhook failed after 5 attempts: ''
                          @ msg retryAttempts))
         \<and> map fst (pendingCalls (snd (sendWebhookWithRetry post p url attempt st)))
             = map fst (pendingCalls st)
         \<and> (\<exists>pc'. map_of (pendingCalls (snd (sendWebhookWithRetry post p url attempt st)))
                      (pl_tool_call_id p) = Some pc'
                  \<and> status pc' = Some ''failed'' \<and> finalError pc' = Some (msg retryAttempts)
                  \<and> same_call pc pc')
         \<and> (\<forall>k. k \<noteq> pl_tool_call_id p \<longrightarrow>
                map_of (pendingCalls (snd (sendWebhookWithRetry post p url attempt st))) k
                  = map_of (pendingCalls st) k)"
  using exhausted_gen [OF assms] .

theorem sendWebhookWithRetry_exhausted_witness:
  "fst (sendWebhookWithRetry failing_transport example_payload ''https://hook.example'' 1 example_state)
     = Inl (Error ''AI Van webhook failed after 5 attempts: timeout of 60000ms exceeded'')
   \<and> map fst (pendingCalls (snd (sendWebhookWithRetry failing_transport example_payload
                                   ''https://hook.example'' 1 example_state)))
       = [''call_1'']
   \<and> (\<exists>pc'. map_of (pendingCalls (snd (sendWebhookWithRetry failing_transport example_payload
                                         ''https://hook.example'' 1 example_state))) ''call_1''
                = Some pc'
            \<and> status pc' = Some ''failed''
            \<and> finalError pc' = Some ''timeout of 60000ms exceeded''
            \<and> same_call example_call pc')"
proof -
  have fails: "\<forall>a. 1 \<le> a \<and> a \<le> retryAttempts
                 \<longrightarrow> deliver failing_transport example_payload ''https://hook.example'' a
                       = Inl (Error ((\<lambda>a. ''timeout of 60000ms exceeded'') a))"
    by (simp add: deliver_def failing_transport_def)
  have le: "1 \<le> retryAttempts"
    by (simp add: retryAttempts_def)
  have entry: "map_of (pendingCalls example_state) (pl_tool_call_id example_payload) = Some example_call"
    by (simp add: example_state_def example_payload_def)
  have name: "pl_employee_name example_payload = ''AI Van''"
    and ident: "pl_tool_call_id example_payload = ''call_1''"
    by (simp_all add: example_payload_def)
  have keys: "map fst (pendingCalls example_state) = [''call_1'']"
    by (simp add: example_state_def)
  from sendWebhookWithRetry_exhausted [OF fails le entry]
  have "fst (sendWebhookWithRetry failing_transport example_payload ''https://hook.example'' 1 example_state)
          = Inl (Error (''AI Van'' @ '' webhook failed after 5 attempts: '' @ ''timeout of 60000ms exceeded''))
        \<and> map fst (pendingCalls (snd (sendWebhookWithRetry failing_transport example_payload
                                        ''https://hook.example'' 1 example_state)))
            = [''call_1'']
        \<and> (\<exists>pc'. map_of (pendingCalls (snd (sendWebhookWithRetry failing_transport example_payload
                                              ''https://hook.example'' 1 example_state))) ''call_1''
                     = Some pc'
                 \<and> status pc' = Some ''failed''
                 \<and> finalError pc' = Some ''timeout of 60000ms exceeded''
                 \<and> same_call example_call pc')"
    unfolding name ident keys by (elim conjE) (intro conjI)
  then show ?thesis
    by (simp only: append.simps)
qed

section \<open>Properties of sendToolCalls\<close>

lemma sent_result:
  "sendWebhookWithRetry post p url attempt st = (Inr r, st')
   \<Longrightarrow> toolCallId r = pl_tool_call_id p \<and> sr_status r = ''sent''
       \<and> (\<exists>a resp. post url p a = Inr resp \<and> response r = data resp)"
proof (induction post p url attempt st rule: sendWebhookWithRetry.induct)
  case (1 post p url attempt st)
  show ?case
  proof (cases "deliver post p url attempt")
    case (Inr sent)
    with "1.prems" have "r = sent"
      by (subst (asm) sendWebhookWithRetry.simps) simp
    with Inr show ?thesis
      by (fastforce simp: deliver_def split: sum.splits if_splits)
  next
    case (Inl err)
    show ?thesis
    proof (cases "attempt < retryAttempts")
      case True
      with Inl "1.prems" have
        "sendWebhookWithRetry post p url (attempt + 1)
           (wait (backoff_delay retryDelay maxRetryDelay attempt)
              (note_retry (pl_tool_call_id p) attempt (message err) st)) = (Inr r, st')"
        by (subst (asm) sendWebhookWithRetry.simps) simp
      then show ?thesis
        using "1.IH" [OF Inl True] by simp
    next
      case False
      with Inl "1.prems" show ?thesis
        by (subst (asm) sendWebhookWithRetry.simps) simp
    qed
  qed
qed

lemma dispatch_one_result:
  "per_call_record post url toolCall (fst (dispatch_one parse post url emp tid rid eid toolCall st))"
proof (cases "parse (tc_function_arguments toolCall)")
  case (Inl msg)
  then show ?thesis
    by (simp add: dispatch_one_def dispatch_error_def per_call_record_def)
next
  case (Inr args)
  let ?p = "\<lparr>pl_tool_call_id = tc_id toolCall,
                    pl_function_name = tc_function_name toolCall,
                    pl_arguments = args, pl_thread_id = tid, pl_run_id = rid,
                    pl_employee_id = eid, pl_employee_name = emp_name emp,
                    pl_employee_role = emp_role emp, pl_timestamp = clock st,
                    pl_retry_count = 0\<rparr>"
  let ?entry = "\<lparr>threadId = tid, runId = rid, employeeId = eid,
                        functionName = tc_function_name toolCall, timestamp = clock st,
                        arguments = args, retryCount = 0, webhookUrl = url, payload = ?p,
                        status = None, lastError = None, lastAttempt = None,
                        finalError = None, failedAt = None, processedAt = None\<rparr>"
  let ?st1 = "st\<lparr>pendingCalls := AList.update (tc_id toolCall) ?entry (pendingCalls st)\<rparr>"
  obtain res st2 where send: "sendWebhookWithRetry post ?p url 1 ?st1 = (res, st2)"
    by (cases "sendWebhookWithRetry post ?p url 1 ?st1")
  show ?thesis
  proof (cases res)
    case (Inl err)
    with Inr send show ?thesis
      by (simp add: dispatch_one_def dispatch_error_def per_call_record_def Let_def)
  next
    case sent: (Inr r)
    from sent_result [of post ?p url 1 ?st1 r st2] send sent
    have "toolCallId r = tc_id toolCall" and "sr_status r = ''sent''"
      and "\<exists>p a resp. post url p a = Inr resp \<and> response r = data resp"
      by auto
    with Inr send sent show ?thesis
      by (simp add: dispatch_one_def per_call_record_def Let_def)
  qed
qed

lemma dispatch_all_results:
  "list_all2 (per_call_record post url) toolCalls
     (fst (dispatch_all parse post url emp tid rid eid toolCalls st))"
proof (induction toolCalls arbitrary: st)
  case Nil
  show ?case by simp
next
  case (Cons toolCall toolCalls)
  obtain r st1 where one: "dispatch_one parse post url emp tid rid eid toolCall st = (r, st1)"
    by (cases "dispatch_one parse post url emp tid rid eid toolCall st")
  obtain rs st2 where rest: "dispatch_all parse post url emp tid rid eid toolCalls st1 = (rs, st2)"
    by (cases "dispatch_all parse post url emp tid rid eid toolCalls st1")
  from dispatch_one_result [of post url toolCall parse emp tid rid eid st] one
  have r: "per_call_record post url toolCall r"
    by simp
  from Cons.IH [of st1] rest r one show ?case
    by simp
qed

lemma resolved_employee:
  "getWebhookUrlForEmployee eid = Inr url \<Longrightarrow> \<exists>emp. employee_of eid = Some emp"
  by (auto simp: getWebhookUrlForEmployee_def split: option.splits)

lemma waited_same [simp]: "waited a a = 0"
  by (simp add: waited_def)

lemma waited_step:
  "a < a' \<Longrightarrow> waited a a' = int (backoff_delay retryDelay maxRetryDelay a) + waited (a + 1) a'"
  by (simp add: waited_def upt_conv_Cons)

lemma retry_outcome:
  "attempt \<le> retryAttempts \<Longrightarrow>
   (case sendWebhookWithRetry post p url attempt st of
      (Inr sent, st') \<Rightarrow>
        (\<exists>a. attempt \<le> a \<and> a \<le> retryAttempts \<and> deliver post p url a = Inr sent
            \<and> (\<forall>b. attempt \<le> b \<and> b < a \<longrightarrow> (\<exists>e. deliver post p url b = Inl e))
            \<and> clock st' = clock st + waited attempt a)
    | (Inl err, st') \<Rightarrow>
        (\<exists>msg. (\<forall>b. attempt \<le> b \<and> b < retryAttempts \<longrightarrow> (\<exists>e. deliver post p url b = Inl e))
            \<and> deliver post p url retryAttempts = Inl (Error msg)
            \<and> err = Error (pl_employee_name p @ '' webhook failed after 5 attempts: '' @ msg)
            \<and> clock st' = clock st + waited attempt retryAttempts))"
proof (induction post p url attempt st rule: sendWebhookWithRetry.induct)
  case (1 post p url attempt st)
  show ?case
  proof (cases "deliver post p url attempt")
    case (Inr sent)
    then have "sendWebhookWithRetry post p url attempt st = (Inr sent, st)"
      by (subst sendWebhookWithRetry.simps) simp
    with Inr "1.prems" show ?thesis
      by (auto intro!: exI [where x = attempt])
  next
    case (Inl err)
    obtain m where m: "err = Error m"
      by (cases err)
    show ?thesis
    proof (cases "attempt < retryAttempts")
      case True
      let ?st1 = "wait (backoff_delay retryDelay maxRetryDelay attempt)
                    (note_retry (pl_tool_call_id p) attempt (message err) st)"
      have unfold: "sendWebhookWithRetry post p url attempt st
                      = sendWebhookWithRetry post p url (attempt + 1) ?st1"
        using Inl True by (subst sendWebhookWithRetry.simps) simp
      have le: "attempt + 1 \<le> retryAttempts"
        using True by simp
      note ih = "1.IH" [OF Inl True le]
      have clock1: "clock ?st1 = clock st + int (backoff_delay retryDelay maxRetryDelay attempt)"
        by simp
      have first: "\<And>b. attempt \<le> b \<Longrightarrow> \<not> attempt + 1 \<le> b \<Longrightarrow> \<exists>e. deliver post p url b = Inl e"
        using Inl by (metis Suc_eq_plus1 not_less_eq_eq le_antisym)
      obtain res st' where res: "sendWebhookWithRetry post p url (attempt + 1) ?st1 = (res, st')"
        by (cases "sendWebhookWithRetry post p url (attempt + 1) ?st1")
      show ?thesis
      proof (cases res)
        case sent: (Inr sent)
        with ih res obtain a where
          a: "attempt + 1 \<le> a" "a \<le> retryAttempts" "deliver post p url a = Inr sent"
             "\<forall>b. attempt + 1 \<le> b \<and> b < a \<longrightarrow> (\<exists>e. deliver post p url b = Inl e)"
             "clock st' = clock ?st1 + waited (attempt + 1) a"
          by auto
        from a(1) have lt: "attempt < a"
          by simp
        have before: "\<forall>b. attempt \<le> b \<and> b < a \<longrightarrow> (\<exists>e. deliver post p url b = Inl e)"
          using a(4) first by blast
        have "clock st' = clock st + waited attempt a"
          using a(5) clock1 waited_step [OF lt] by simp
        with a(2,3) before lt unfold res sent show ?thesis
          by (auto intro!: exI [where x = a])
      next
        case failed: (Inl e)
        with ih res obtain msg where
          f: "\<forall>b. attempt + 1 \<le> b \<and> b < retryAttempts \<longrightarrow> (\<exists>e. deliver post p url b = Inl e)"
             "deliver post p url retryAttempts = Inl (Error msg)"
             "e = Error (pl_employee_name p @ '' webhook failed after 5 attempts: '' @ msg)"
             "clock st' = clock ?st1 + waited (attempt + 1) retryAttempts"
          by auto
        have before: "\<forall>b. attempt \<le> b \<and> b < retryAttempts \<longrightarrow> (\<exists>e. deliver post p url b = Inl e)"
          using f(1) first by blast
        have "clock st' = clock st + waited attempt retryAttempts"
          using f(4) clock1 waited_step [OF True] by simp
        with f(2,3) before unfold res failed show ?thesis
          by simp
      qed
    next
      case False
      with "1.prems" have eq: "attempt = retryAttempts"
        by simp
      have "sendWebhookWithRetry post p url attempt st
              = (Inl (Error (pl_employee_name p @ '' webhook failed after ''
                       @ nat_to_string retryAttempts @ '' attempts: '' @ m)),
                 note_failed (pl_tool_call_id p) m st)"
        using Inl False m by (subst sendWebhookWithRetry.simps) simp
      moreover have "\<forall>b. retryAttempts \<le> b \<and> b < retryAttempts \<longrightarrow> (\<exists>e. deliver post p url b = Inl e)"
        by auto
      ultimately show ?thesis
        using Inl m eq by (simp add: nat_to_string_retryAttempts)
    qed
  qed
qed

lemma dispatch_one_outcome:
  "call_outcome parse post url emp tid rid eid (clock st) toolCall
     (fst (dispatch_one parse post url emp tid rid eid toolCall st))
     (clock (snd (dispatch_one parse post url emp tid rid eid toolCall st)))"
proof (cases "parse (tc_function_arguments toolCall)")
  case (Inl msg)
  then show ?thesis
    by (simp add: dispatch_one_def call_outcome_def)
next
  case (Inr args)
  let ?p = "\<lparr>pl_tool_call_id = tc_id toolCall,
                    pl_function_name = tc_function_name toolCall,
                    pl_arguments = args, pl_thread_id = tid, pl_run_id = rid,
                    pl_employee_id = eid, pl_employee_name = emp_name emp,
                    pl_employee_role = emp_role emp, pl_timestamp = clock st,
                    pl_retry_count = 0\<rparr>"
  let ?entry = "\<lparr>threadId = tid, runId = rid, employeeId = eid,
                        functionName = tc_function_name toolCall, timestamp = clock st,
                        arguments = args, retryCount = 0, webhookUrl = url, payload = ?p,
                        status = None, lastError = None, lastAttempt = None,
                        finalError = None, failedAt = None, processedAt = None\<rparr>"
  let ?st1 = "st\<lparr>pendingCalls := AList.update (tc_id toolCall) ?entry (pendingCalls st)\<rparr>"
  obtain res st2 where send: "sendWebhookWithRetry post ?p url 1 ?st1 = (res, st2)"
    by (cases "sendWebhookWithRetry post ?p url 1 ?st1")
  have one: "1 \<le> retryAttempts"
    by (simp add: retryAttempts_def)
  note out = retry_outcome [OF one, of post ?p url ?st1]
  show ?thesis
  proof (cases res)
    case (Inl err)
    with out send obtain msg where
      f: "\<forall>b. 1 \<le> b \<and> b < retryAttempts \<longrightarrow> (\<exists>e. deliver post ?p url b = Inl e)"
         "deliver post ?p url retryAttempts = Inl (Error msg)"
         "err = Error (emp_name emp @ '' webhook failed after 5 attempts: '' @ msg)"
         "clock st2 = clock st + waited 1 retryAttempts"
      by auto
    have r: "dispatch_one parse post url emp tid rid eid toolCall st
               = (dispatch_error toolCall eid
                    (emp_name emp @ '' webhook failed after 5 attempts: '' @ msg), st2)"
      using Inr send Inl f(3) by (simp add: dispatch_one_def Let_def)
    show ?thesis
      unfolding r call_outcome_def using Inr f(1,2,4)
      by (simp add: Let_def; blast)
  next
    case sent: (Inr sent)
    with out send obtain a where
      a: "1 \<le> a" "a \<le> retryAttempts" "deliver post ?p url a = Inr sent"
         "\<forall>b. 1 \<le> b \<and> b < a \<longrightarrow> (\<exists>e. deliver post ?p url b = Inl e)"
         "clock st2 = clock st + waited 1 a"
      by auto
    have r: "dispatch_one parse post url emp tid rid eid toolCall st = (Sent sent, st2)"
      using Inr send sent by (simp add: dispatch_one_def Let_def)
    show ?thesis
      unfolding r call_outcome_def using Inr a
      by (simp add: Let_def; blast)
  qed
qed

lemma dispatch_all_dispatched:
  "dispatched parse post url emp tid rid eid (clock st) toolCalls
     (fst (dispatch_all parse post url emp tid rid eid toolCalls st))"
proof (induction toolCalls arbitrary: st)
  case Nil
  show ?case by simp
next
  case (Cons toolCall toolCalls)
  obtain r st1 where one: "dispatch_one parse post url emp tid rid eid toolCall st = (r, st1)"
    by (cases "dispatch_one parse post url emp tid rid eid toolCall st")
  obtain rs st2 where rest: "dispatch_all parse post url emp tid rid eid toolCalls st1 = (rs, st2)"
    by (cases "dispatch_all parse post url emp tid rid eid toolCalls st1")
  from dispatch_one_outcome [of parse post url emp tid rid eid st toolCall] one
  have r: "call_outcome parse post url emp tid rid eid (clock st) toolCall r (clock st1)"
    by simp
  from Cons.IH [of st1] rest
  have rs: "dispatched parse post url emp tid rid eid (clock st1) toolCalls rs"
    by simp
  from r rs one rest show ?case
    by (simp del: dispatched.simps add: dispatched.simps(2)) blast
qed

text \<open>
  Claim C6, as amended. When the employee's webhook URL resolves, \<open>sendToolCalls\<close> does
  not throw: it returns one record per tool call, in the order of the calls, each with the
  call's identifier. The record of a call is fixed by the deliveries of that call alone:
  status \<open>'error'\<close> with the parser's message when its arguments do not parse, status
  \<open>'sent'\<close> with the response of the first delivery that succeeds among attempts 1 to 5,
  and status \<open>'error'\<close> with the reason \<open>webhook failed after 5 attempts\<close> and the
  message of the last failure when all five fail. Whatever the record of a call is, the
  calls after it are dispatched in the same way.
\<close>

theorem sendToolCalls_per_call_results:
  assumes "getWebhookUrlForEmployee eid = Inr url"
  shows "\<exists>emp results st'.
           employee_of eid = Some emp
           \<and> sendToolCalls parse post toolCalls tid rid eid st = (Inr results, st')
           \<and> length results = length toolCalls
           \<and> list_all2 (per_call_record post url) toolCalls results
           \<and> dispatched parse post url emp tid rid eid (clock st) toolCalls results"
proof -
  from resolved_employee [OF assms] obtain emp where emp: "employee_of eid = Some emp"
    by blast
  obtain results st' where
    all: "dispatch_all parse post url emp tid rid eid toolCalls st = (results, st')"
    by (cases "dispatch_all parse post url emp tid rid eid toolCalls st")
  from dispatch_all_results [of post url toolCalls parse emp tid rid eid st] all
  have recs: "list_all2 (per_call_record post url) toolCalls results"
    by simp
  then have len: "length results = length toolCalls"
    by (simp add: list_all2_lengthD)
  from dispatch_all_dispatched [of parse post url emp tid rid eid st toolCalls] all
  have each: "dispatched parse post url emp tid rid eid (clock st) toolCalls results"
    by simp
  from all emp assms have "sendToolCalls parse post toolCalls tid rid eid st = (Inr results, st')"
    by (simp add: sendToolCalls_def)
  with emp len recs each show ?thesis
    by (intro exI conjI)
qed

theorem sendToolCalls_per_call_results_witness:
  "\<exists>emp.
     employee_of ''van'' = Some emp
     \<and> emp_name emp = ''AI Van''
     \<and> fst (sendToolCalls parse_example selective_transport [example_tool_call, second_tool_call]
              ''thread_1'' ''run_1'' ''van'' empty_state)
         = Inr [NotSent \<lparr>er_toolCallId = ''call_1'', er_employeeId = ''van'', er_status = ''error'',
                          er_error = ''AI Van webhook failed after 5 attempts: timeout of 60000ms exceeded'',
                          er_retryable = True\<rparr>,
                Sent \<lparr>toolCallId = ''call_2'', sr_employeeId = ''van'', sr_employeeName = ''AI Van'',
                       sr_webhookUrl = ''https://hook.eu2.make.com/6e1mvvrxjd2dm5mbdvlgmxc2sut3r3lk'',
                       sr_status = ''sent'', response = JObj [(''accepted'', JBool True)],
                       attempt_no = 1, response_time = ''unknown''\<rparr>]
     \<and> dispatched parse_example selective_transport
         ''https://hook.eu2.make.com/6e1mvvrxjd2dm5mbdvlgmxc2sut3r3lk'' emp
         ''thread_1'' ''run_1'' ''van'' 1000 [example_tool_call, second_tool_call]
         [NotSent \<lparr>er_toolCallId = ''call_1'', er_employeeId = ''van'', er_status = ''error'',
                   er_error = ''AI Van webhook failed after 5 attempts: timeout of 60000ms exceeded'',
                   er_retryable = True\<rparr>,
          Sent \<lparr>toolCallId = ''call_2'', sr_employeeId = ''van'', sr_employeeName = ''AI Van'',
                sr_webhookUrl = ''https://hook.eu2.make.com/6e1mvvrxjd2dm5mbdvlgmxc2sut3r3lk'',
                sr_status = ''sent'', response = JObj [(''accepted'', JBool True)],
                attempt_no = 1, response_time = ''unknown''\<rparr>]"
proof -
  have url: "getWebhookUrlForEmployee ''van''
               = Inr ''https://hook.eu2.make.com/6e1mvvrxjd2dm5mbdvlgmxc2sut3r3lk''"
    by (simp add: getWebhookUrlForEmployee_def employee_of_def config_employees_def)
  have run: "fst (sendToolCalls parse_example selective_transport [example_tool_call, second_tool_call]
              ''thread_1'' ''run_1'' ''van'' empty_state)
         = Inr [NotSent \<lparr>er_toolCallId = ''call_1'', er_employeeId = ''van'', er_status = ''error'',
                          er_error = ''AI Van webhook failed after 5 attempts: timeout of 60000ms exceeded'',
                          er_retryable = True\<rparr>,
                Sent \<lparr>toolCallId = ''call_2'', sr_employeeId = ''van'', sr_employeeName = ''AI Van'',
                       sr_webhookUrl = ''https://hook.eu2.make.com/6e1mvvrxjd2dm5mbdvlgmxc2sut3r3lk'',
                       sr_status = ''sent'', response = JObj [(''accepted'', JBool True)],
                       attempt_no = 1, response_time = ''unknown''\<rparr>]"
    by (simp add: sendToolCalls_def getWebhookUrlForEmployee_def employee_of_def
          config_employees_def dispatch_one_def dispatch_error_def parse_example_def
          example_tool_call_def second_tool_call_def selective_transport_def empty_state_def
          sendWebhookWithRetry.simps deliver_def nat_to_string_retryAttempts
          nat_to_string_retryAttempts [unfolded retryAttempts_def] retryAttempts_def
          note_retry_def note_failed_def wait_def Let_def)
  from sendToolCalls_per_call_results
         [OF url, where parse = parse_example and post = selective_transport
            and toolCalls = "[example_tool_call, second_tool_call]"
            and tid = "''thread_1''" and rid = "''run_1''" and st = empty_state]
  obtain emp results st' where
    emp: "employee_of ''van'' = Some emp"
    and res: "sendToolCalls parse_example selective_transport [example_tool_call, second_tool_call]
                ''thread_1'' ''run_1'' ''van'' empty_state = (Inr results, st')"
    and each: "dispatched parse_example selective_transport
                 ''https://hook.eu2.make.com/6e1mvvrxjd2dm5mbdvlgmxc2sut3r3lk'' emp
                 ''thread_1'' ''run_1'' ''van'' (clock empty_state)
                 [example_tool_call, second_tool_call] results"
    by (elim exE conjE)
  from emp have name: "emp_name emp = ''AI Van''"
    by (auto simp: employee_of_def config_employees_def)
  have now: "clock empty_state = 1000"
    by (simp add: empty_state_def)
  from res run have results: "results =
         [NotSent \<lparr>er_toolCallId = ''call_1'', er_employeeId = ''van'', er_status = ''error'',
                   er_error = ''AI Van webhook failed after 5 attempts: timeout of 60000ms exceeded'',
                   er_retryable = True\<rparr>,
          Sent \<lparr>toolCallId = ''call_2'', sr_employeeId = ''van'', sr_employeeName = ''AI Van'',
                sr_webhookUrl = ''https://hook.eu2.make.com/6e1mvvrxjd2dm5mbdvlgmxc2sut3r3lk'',
                sr_status = ''sent'', response = JObj [(''accepted'', JBool True)],
                attempt_no = 1, response_time = ''unknown''\<rparr>]"
    by simp
  from emp name run each [unfolded now results] show ?thesis
    by (intro exI conjI)
qed

text \<open>
  The claim as stated fails: for the employee identifier \<open>'unknown'\<close> (the one a response
  processed without a pending call carries) \<open>sendToolCalls\<close> rethrows the configuration
  error of \<open>getWebhookUrlForEmployee\<close> (line 49) and returns no record.
\<close>

theorem sendToolCalls_throws_counterexample:
  "sendToolCalls parse_example failing_transport [example_tool_call] ''thread_1'' ''run_1''
     ''unknown'' empty_state
   = (Inl (Error (''Employee '' @ [CHR 0x27] @ ''unknown'' @ [CHR 0x27] @ '' not found in configuration'')),
      empty_state)"
  by (simp add: sendToolCalls_def getWebhookUrlForEmployee_def employee_of_def config_employees_def)

section \<open>Properties of cleanupPendingCalls\<close>

lemma sweep_entry_filter:
  "sweep_entry now entry calls =
     (if swept now (snd entry) then filter (\<lambda>e. fst e \<noteq> fst entry) calls else calls)"
  by (auto simp: sweep_entry_def swept_def one_day_def two_hours_def AList.delete_eq Let_def
        case_prod_beta intro!: filter_cong)

lemma fold_sweep_filter:
  "fold (sweep_entry now) entries calls =
     filter (\<lambda>e. \<not> (\<exists>x \<in> set entries. fst x = fst e \<and> swept now (snd x))) calls"
proof (induction entries arbitrary: calls)
  case Nil
  show ?case by simp
next
  case (Cons entry entries)
  have "fold (sweep_entry now) (entry # entries) calls
          = fold (sweep_entry now) entries (sweep_entry now entry calls)"
    by simp
  also have "\<dots> = filter (\<lambda>e. \<not> (\<exists>x \<in> set entries. fst x = fst e \<and> swept now (snd x)))
                     (sweep_entry now entry calls)"
    by (rule Cons.IH)
  also have "\<dots> = filter (\<lambda>e. \<not> (\<exists>x \<in> set (entry # entries). fst x = fst e \<and> swept now (snd x)))
                     calls"
    by (auto simp: sweep_entry_filter intro!: filter_cong)
  finally show ?case .
qed

lemma cleanup_filter:
  assumes "distinct (map fst (pendingCalls st))"
  shows "pendingCalls (cleanupPendingCalls st)
           = filter (\<lambda>e. \<not> swept (clock st) (snd e)) (pendingCalls st)"
proof -
  have "\<And>e x. e \<in> set (pendingCalls st) \<Longrightarrow> x \<in> set (pendingCalls st) \<Longrightarrow> fst x = fst e \<Longrightarrow> x = e"
    using assms by (metis eq_key_imp_eq_value prod.collapse)
  then have "filter (\<lambda>e. \<not> (\<exists>x \<in> set (pendingCalls st). fst x = fst e \<and> swept (clock st) (snd x)))
               (pendingCalls st)
             = filter (\<lambda>e. \<not> swept (clock st) (snd e)) (pendingCalls st)"
    by (intro filter_cong) auto
  then show ?thesis
    by (simp add: cleanupPendingCalls_def fold_sweep_filter)
qed

text \<open>
  Claim C8. One sweep of \<open>cleanupPendingCalls\<close> over a map (its keys are distinct, as a
  JavaScript \<open>Map\<close>'s are) removes every entry older than 24 hours whatever its status,
  removes every entry with status \<open>'failed'\<close> that is older than 2 hours and younger than
  24 hours, and keeps, unchanged, every entry younger than 24 hours whose status is not
  \<open>'failed'\<close> (a pending call), whatever its retry count.
\<close>

theorem cleanupPendingCalls_sweep:
  assumes "distinct (map fst (pendingCalls st))"
    and "(tcid, call) \<in> set (pendingCalls st)"
  shows "(clock st - timestamp call > one_day
            \<longrightarrow> tcid \<notin> fst ` set (pendingCalls (cleanupPendingCalls st)))
         \<and> (status call = Some ''failed'' \<and> clock st - timestamp call > two_hours
              \<and> clock st - timestamp call < one_day
            \<longrightarrow> tcid \<notin> fst ` set (pendingCalls (cleanupPendingCalls st)))
         \<and> (status call \<noteq> Some ''failed'' \<and> clock st - timestamp call < one_day
            \<longrightarrow> (tcid, call) \<in> set (pendingCalls (cleanupPendingCalls st)))"
proof -
  have only: "\<And>c. (tcid, c) \<in> set (pendingCalls st) \<Longrightarrow> c = call"
    using assms by (metis eq_key_imp_eq_value)
  have gone: "tcid \<notin> fst ` set (pendingCalls (cleanupPendingCalls st))" if "swept (clock st) call"
    using that only by (auto simp: cleanup_filter [OF assms(1)])
  have kept: "(tcid, call) \<in> set (pendingCalls (cleanupPendingCalls st))" if "\<not> swept (clock st) call"
    using that assms(2) by (simp add: cleanup_filter [OF assms(1)])
  show ?thesis
    using gone kept by (auto simp: swept_def)
qed

theorem cleanupPendingCalls_sweep_witness:
  "(''call_1'', example_call) \<in> set (pendingCalls (cleanupPendingCalls old_failed_state))
   \<and> ''call_2'' \<notin> fst ` set (pendingCalls (cleanupPendingCalls old_failed_state))
   \<and> ''call_3'' \<notin> fst ` set (pendingCalls (cleanupPendingCalls old_failed_state))"
proof -
  have d: "distinct (map fst (pendingCalls old_failed_state))"
    by (simp add: old_failed_state_def)
  have m1: "(''call_1'', example_call) \<in> set (pendingCalls old_failed_state)"
    and m2: "(''call_2'', example_call\<lparr>timestamp := 1000 - 3 * 60 * 60 * 1000, status := Some ''failed''\<rparr>)
               \<in> set (pendingCalls old_failed_state)"
    and m3: "(''call_3'', example_call\<lparr>timestamp := 1000 - 25 * 60 * 60 * 1000\<rparr>)
               \<in> set (pendingCalls old_failed_state)"
    by (simp_all add: old_failed_state_def)
  have now: "clock old_failed_state = 1000"
    by (simp add: old_failed_state_def)
  have fresh: "status example_call = None" "timestamp example_call = 1000"
    by (simp_all add: example_call_def)
  from cleanupPendingCalls_sweep [OF d m1]
  have k1: "(''call_1'', example_call) \<in> set (pendingCalls (cleanupPendingCalls old_failed_state))"
    by (simp add: now fresh one_day_def)
  from cleanupPendingCalls_sweep [OF d m2]
  have k2: "''call_2'' \<notin> fst ` set (pendingCalls (cleanupPendingCalls old_failed_state))"
    by (simp add: now one_day_def two_hours_def)
  from cleanupPendingCalls_sweep [OF d m3]
  have k3: "''call_3'' \<notin> fst ` set (pendingCalls (cleanupPendingCalls old_failed_state))"
    by (simp add: now one_day_def)
  from k1 k2 k3 show ?thesis
    by (intro conjI)
qed

section \<open>Properties of the output processing\<close>

lemma js_trim_trimmed: "trimmed s \<Longrightarrow> js_trim s = s"
proof (cases s)
  case Nil
  then show ?thesis by (simp add: js_trim_def)
next
  case (Cons c cs)
  assume "trimmed s"
  with Cons have h: "\<not> js_whitespace (hd s)" and l: "\<not> js_whitespace (last s)"
    by (simp_all add: trimmed_def)
  from h Cons have "dropWhile js_whitespace s = s"
    by simp
  moreover have "dropWhile js_whitespace (rev s) = rev s"
  proof (cases "rev s")
    case Nil
    then show ?thesis by simp
  next
    case rs: (Cons x xs)
    then have "hd (rev s) = x" by simp
    moreover have "hd (rev s) = last s" by (rule hd_rev)
    ultimately have "\<not> js_whitespace x" using l by simp
    with rs show ?thesis by simp
  qed
  ultimately show ?thesis
    by (simp add: js_trim_def)
qed

lemma trimmed_js_trim: "trimmed (js_trim s)"
proof -
  let ?t = "dropWhile js_whitespace s"
  let ?u = "dropWhile js_whitespace (rev ?t)"
  show ?thesis
  proof (cases "?u = []")
    case True
    then show ?thesis by (simp add: js_trim_def trimmed_def)
  next
    case False
    then have hd_u: "\<not> js_whitespace (hd ?u)"
      by (rule hd_dropWhile)
    have t: "?t \<noteq> []"
    proof
      assume "?t = []"
      then have "?u = []" by (simp only: rev.simps(1) dropWhile.simps(1))
      with False show False by blast
    qed
    then have hd_t: "\<not> js_whitespace (hd ?t)"
      by (rule hd_dropWhile)
    have "rev ?t = takeWhile js_whitespace (rev ?t) @ ?u"
      by simp
    with False have "last ?u = last (rev ?t)"
      by (metis last_appendR)
    with t have last_u: "last ?u = hd ?t"
      by (simp add: last_rev)
    from False hd_u hd_t last_u show ?thesis
      by (simp add: js_trim_def trimmed_def hd_rev last_rev)
  qed
qed

lemma js_trim_idem: "js_trim (js_trim s) = js_trim s"
  by (rule js_trim_trimmed) (rule trimmed_js_trim)

lemma digit_char_not_space: "d < 16 \<Longrightarrow> \<not> js_whitespace (digit_char d)"
proof -
  assume "d < 16"
  then have "digit_char d \<in> set ''0123456789abcdef''"
    unfolding digit_char_def by (intro nth_mem) simp
  moreover have "\<forall>c \<in> set ''0123456789abcdef''. \<not> js_whitespace c"
    by (simp add: js_whitespace_def)
  ultimately show ?thesis
    by blast
qed

lemma nat_to_string_shape:
  "nat_to_string n \<noteq> [] \<and> \<not> js_whitespace (hd (nat_to_string n))
   \<and> \<not> js_whitespace (last (nat_to_string n))"
proof (induction n rule: nat_to_string.induct)
  case (1 n)
  show ?case
  proof (cases "n < 10")
    case True
    then show ?thesis
      by (subst (1 2 3) nat_to_string.simps) (simp add: digit_char_not_space)
  next
    case False
    with "1.IH" show ?thesis
      by (subst (1 2 3) nat_to_string.simps) (simp add: digit_char_not_space)
  qed
qed

lemma minus_not_space: "\<not> js_whitespace CHR ''-''"
  by (simp add: js_whitespace_def)

lemma trimmed_number: "trimmed (number_to_string n) \<and> number_to_string n \<noteq> []"
proof (cases "n < 0")
  case True
  with nat_to_string_shape [of "nat (- n)"] show ?thesis
    by (simp add: number_to_string_def trimmed_def minus_not_space)
next
  case False
  with nat_to_string_shape [of "nat n"] show ?thesis
    by (simp add: number_to_string_def trimmed_def)
qed

lemma quote_not_space: "\<not> js_whitespace (CHR 0x22)"
  by (simp add: js_whitespace_def)

lemma trimmed_quote: "trimmed (quote_json_string s) \<and> quote_json_string s \<noteq> []"
  by (simp add: quote_json_string_def trimmed_def quote_not_space)

lemma trimmedI: "s \<noteq> [] \<Longrightarrow> \<not> js_whitespace (hd s) \<Longrightarrow> \<not> js_whitespace (last s) \<Longrightarrow> trimmed s"
  by (simp add: trimmed_def)

lemma bracket_not_space:
  "\<not> js_whitespace CHR ''[''" "\<not> js_whitespace CHR '']''"
  "\<not> js_whitespace CHR ''{''" "\<not> js_whitespace CHR ''}''"
  by (simp_all add: js_whitespace_def)

lemma trimmed_literals:
  "trimmed ''null''" "trimmed ''true''" "trimmed ''false''" "trimmed ''[]''" "trimmed ''{}''"
  by (simp_all add: trimmed_def js_whitespace_def)

lemma trimmed_enclosed:
  "\<not> js_whitespace a \<Longrightarrow> \<not> js_whitespace b \<Longrightarrow> trimmed (a # xs @ [b])"
  by (simp add: trimmed_def)

lemma trimmed_stringify: "trimmed (stringify gap ind v) \<and> stringify gap ind v \<noteq> []"
proof (cases v)
  case JNull
  then show ?thesis by (simp add: trimmed_literals)
next
  case (JBool b)
  then show ?thesis by (simp add: trimmed_literals)
next
  case (JNum n)
  then show ?thesis by (simp add: trimmed_number)
next
  case (JStr s)
  then show ?thesis by (simp add: trimmed_quote)
next
  case (JArr vs)
  then show ?thesis
    by (auto intro!: trimmedI simp: bracket_not_space trimmed_literals)
next
  case (JObj kvs)
  then show ?thesis
    by (auto intro!: trimmedI simp: bracket_not_space trimmed_literals)
qed

lemma output_text_trimmed: "output_text v = Some t \<Longrightarrow> trimmed t"
proof (cases v)
  case None
  assume "output_text v = Some t"
  with None show ?thesis by simp
next
  case (Some j)
  assume t: "output_text v = Some t"
  show ?thesis
  proof (cases j)
    case (JStr s)
    with Some t show ?thesis by (auto simp: trimmed_js_trim)
  next
    case (JNum n)
    with Some t show ?thesis by (auto simp: trimmed_number)
  next
    case (JBool b)
    with Some t show ?thesis by (auto simp: trimmed_literals)
  next
    case JNull
    with Some t trimmed_stringify [of "''  ''" "[]" JNull] show ?thesis by auto
  next
    case (JArr vs)
    with Some t trimmed_stringify [of "''  ''" "[]" "JArr vs"] show ?thesis by auto
  next
    case (JObj kvs)
    with Some t trimmed_stringify [of "''  ''" "[]" "JObj kvs"] show ?thesis by auto
  qed
qed

lemma size_limit_pos: "0 < size_limit"
  by (simp add: size_limit_def)

lemma marker_shape:
  "truncation_marker \<noteq> []" "last truncation_marker = CHR '']''" "length truncation_marker = 38"
  by (simp_all add: truncation_marker_def)

lemma processOutput_text:
  assumes "output_text v = Some text" and "text \<noteq> []"
  shows "processOutput v =
           (if length text > size_limit
            then Inr (take size_limit text @ truncation_marker, [LargeOutput (length text)])
            else Inr (text, []))"
proof -
  from assms(1) have "trimmed text"
    by (rule output_text_trimmed)
  then have "js_trim text = text"
    by (rule js_trim_trimmed)
  with assms show ?thesis
    by (simp add: processOutput_def)
qed

lemma processOutput_accepted:
  assumes "processOutput v = Inr (result, ws)"
  shows "\<exists>text. output_text v = Some text \<and> text \<noteq> [] \<and> trimmed text"
proof (cases "output_text v")
  case None
  with assms show ?thesis
    by (simp add: processOutput_def)
next
  case (Some t)
  with assms have "t \<noteq> []"
    by (auto simp: processOutput_def split: if_splits)
  with Some output_text_trimmed [OF Some] show ?thesis
    by simp
qed

lemma processOutput_string:
  assumes "trimmed s" and "s \<noteq> []"
  shows "processOutput (Some (JStr s)) =
           (if length s > size_limit
            then Inr (take size_limit s @ truncation_marker, [LargeOutput (length s)])
            else Inr (s, []))"
proof -
  from assms(1) have "js_trim s = s"
    by (rule js_trim_trimmed)
  then have "output_text (Some (JStr s)) = Some s"
    by simp
  from processOutput_text [OF this assms(2)] show ?thesis .
qed

lemma truncated_trimmed:
  assumes "trimmed s" and "s \<noteq> []"
  shows "trimmed (take size_limit s @ truncation_marker)"
proof (rule trimmedI)
  show "take size_limit s @ truncation_marker \<noteq> []"
    by (simp add: marker_shape)
  from assms size_limit_pos have "hd (take size_limit s @ truncation_marker) = hd s"
    by (cases s) (simp_all add: take_Cons')
  with assms show "\<not> js_whitespace (hd (take size_limit s @ truncation_marker))"
    by (simp add: trimmed_def)
  show "\<not> js_whitespace (last (take size_limit s @ truncation_marker))"
    by (simp add: marker_shape bracket_not_space)
qed

text \<open>
  Claim C5. For every output that the output processing of \<open>processWebhookResponse\<close>
  accepts: when its text (the output normalised by its type) is longer than the limit of
  100000 characters, the result is the first 100000 characters of the text followed by the
  fixed truncation marker; when the text is at most 100000 characters long, the result is
  the text itself; and processing the result again (as a string output) returns the same
  result.
\<close>

theorem processOutput_truncation:
  assumes "processOutput v = Inr (result, ws)"
  shows "\<exists>text. output_text v = Some text
           \<and> (length text > size_limit
                \<longrightarrow> result = take size_limit text @ truncation_marker
                    \<and> length result = size_limit + length truncation_marker
                    \<and> ws = [LargeOutput (length text)])
           \<and> (length text \<le> size_limit \<longrightarrow> result = text \<and> ws = [])
           \<and> (\<exists>ws'. processOutput (Some (JStr result)) = Inr (result, ws'))
           \<and> size_limit = 100000"
proof -
  from processOutput_accepted [OF assms] obtain t where
    ot: "output_text v = Some t" and ne: "t \<noteq> []" and tr: "trimmed t"
    by blast
  note out = processOutput_text [OF ot ne]
  show ?thesis
  proof (cases "length t > size_limit")
    case True
    with out assms have res: "result = take size_limit t @ truncation_marker"
      and ws: "ws = [LargeOutput (length t)]"
      by simp_all
    from True have len: "length result = size_limit + length truncation_marker"
      by (simp add: res)
    have tr': "trimmed result" and ne': "result \<noteq> []"
      using truncated_trimmed [OF tr ne] by (simp_all add: res marker_shape)
    from True have again: "take size_limit result = take size_limit t"
      by (simp add: res)
    have "length result > size_limit"
      by (simp add: len marker_shape)
    with processOutput_string [OF tr' ne'] again
    have "processOutput (Some (JStr result)) = Inr (result, [LargeOutput (length result)])"
      by (simp add: res)
    with ot True res len ws show ?thesis
      by (auto simp: size_limit_def)
  next
    case False
    with out assms have res: "result = t" and ws: "ws = []"
      by simp_all
    from False processOutput_string [OF tr ne]
    have "processOutput (Some (JStr result)) = Inr (result, [])"
      by (simp add: res)
    with ot False res ws show ?thesis
      by (auto simp: size_limit_def)
  qed
qed

section \<open>Properties of processWebhookResponse\<close>

lemma non_empty_string:
  "(truthy v \<and> is_string v) = (\<exists>s. v = Some (JStr s) \<and> s \<noteq> [])"
  by (cases v rule: truthy.cases) simp_all

lemma validationErrors_checks:
  "(validationErrors r = []) =
     ((truthy (tool_call_id r) \<and> is_string (tool_call_id r))
      \<and> output_value r \<noteq> None \<and> output_value r \<noteq> Some JNull
      \<and> (truthy (thread_id r) \<and> is_string (thread_id r))
      \<and> (truthy (run_id r) \<and> is_string (run_id r)))"
  by (auto simp: validationErrors_def)

lemma validationErrors_Nil:
  "(validationErrors r = []) =
     ((\<exists>s. tool_call_id r = Some (JStr s) \<and> s \<noteq> [])
      \<and> output_value r \<noteq> None \<and> output_value r \<noteq> Some JNull
      \<and> (\<exists>s. thread_id r = Some (JStr s) \<and> s \<noteq> [])
      \<and> (\<exists>s. run_id r = Some (JStr s) \<and> s \<noteq> []))"
  by (simp only: validationErrors_checks non_empty_string)

lemma well_formedD:
  assumes "well_formed r"
  obtains tcid tid rid out ws where
    "tool_call_id r = Some (JStr tcid)" "thread_id r = Some (JStr tid)"
    "run_id r = Some (JStr rid)" "validationErrors r = []"
    "processOutput (output_value r) = Inr (out, ws)"
proof -
  from assms have v: "validationErrors r = []"
    by (simp add: well_formed_def)
  from assms obtain out ws where "processOutput (output_value r) = Inr (out, ws)"
    by (auto simp: well_formed_def split: sum.splits)
  with v that show thesis
    by (auto simp: validationErrors_Nil)
qed

lemma str_includes_prefix: "take (length sub) xs = sub \<Longrightarrow> str_includes xs sub"
  by (cases xs) auto

lemma str_includes_infix: "str_includes (a @ sub @ b) sub"
proof (induction a)
  case Nil
  show ?case by (rule str_includes_prefix) simp
next
  case (Cons x a)
  then show ?case by simp
qed

lemma process_found:
  assumes "validationErrors r = []"
    and "processOutput (output_value r) = Inr (out, ws)"
    and "tool_call_id r = Some (JStr tcid)"
    and "thread_id r = Some (JStr tid)"
    and "run_id r = Some (JStr rid)"
    and "map_of (pendingCalls st) tcid = Some pendingCall"
  shows "processWebhookResponse r st =
           (if threadId pendingCall \<noteq> tid
            then (Inl (Error (''Thread ID mismatch! Expected: '' @ threadId pendingCall
                         @ '', Received: '' @ tid)), ws, st)
            else if runId pendingCall \<noteq> rid
            then (Inl (Error (''Run ID mismatch! Expected: '' @ runId pendingCall
                         @ '', Received: '' @ rid)), ws, st)
            else (Inr (processedResponse tcid out tid rid (Some pendingCall) (clock st)), ws,
                  st\<lparr>pendingCalls := AList.delete tcid (pendingCalls st)\<rparr>))"
  using assms by (simp add: processWebhookResponse_def delete_update_same)

lemma process_not_found:
  assumes "validationErrors r = []"
    and "processOutput (output_value r) = Inr (out, ws)"
    and "map_of (pendingCalls st) (string_of (tool_call_id r)) = None"
  shows "processWebhookResponse r st =
           (Inr (processedResponse (string_of (tool_call_id r)) out (string_of (thread_id r))
                   (string_of (run_id r)) None (clock st)),
            ws @ [NoPendingCallFound (string_of (tool_call_id r)),
                  AvailableIds (map fst (pendingCalls st))]
               @ (if similarIds (string_of (tool_call_id r)) (map fst (pendingCalls st)) \<noteq> []
                  then [SimilarIds (similarIds (string_of (tool_call_id r)) (map fst (pendingCalls st)))]
                  else [])
               @ [WithoutPendingValidation],
            st)"
  using assms by (simp add: processWebhookResponse_def Let_def)

lemma process_fails_unchanged:
  "fst (processWebhookResponse r st) = Inl e \<Longrightarrow> snd (snd (processWebhookResponse r st)) = st"
  by (auto simp: processWebhookResponse_def Let_def split: if_splits sum.splits option.splits prod.splits)

text \<open>
  Claim C1, as amended. For a stored pending call and a result with its identifier whose
  thread or run identifier differs from the stored one, \<open>processWebhookResponse\<close> throws and
  leaves the state, and so the whole map of pending calls, as it was. When the result is
  structurally valid the error is the correlation error (its message contains
  \<open>mismatch\<close>, which is what the error handler looks for); otherwise it is the error of
  the validation or of the output processing, which run first.
\<close>

theorem mismatch_rejected:
  assumes "map_of (pendingCalls st) tcid = Some pendingCall"
    and "tool_call_id r = Some (JStr tcid)"
    and "thread_id r \<noteq> Some (JStr (threadId pendingCall))
         \<or> run_id r \<noteq> Some (JStr (runId pendingCall))"
  shows "\<exists>e ws. processWebhookResponse r st = (Inl e, ws, st)
           \<and> (well_formed r \<longrightarrow> str_includes (message e) ''mismatch'')"
proof (cases "well_formed r")
  case False
  have "\<exists>e. fst (processWebhookResponse r st) = Inl e"
  proof (cases "validationErrors r = []")
    case True
    with False obtain e where "processOutput (output_value r) = Inl e"
      by (auto simp: well_formed_def split: sum.splits)
    with True show ?thesis
      by (simp add: processWebhookResponse_def)
  next
    case False
    then show ?thesis
      by (simp add: processWebhookResponse_def)
  qed
  then obtain e where e: "fst (processWebhookResponse r st) = Inl e"
    by blast
  from process_fails_unchanged [OF e] e
  have "processWebhookResponse r st = (Inl e, fst (snd (processWebhookResponse r st)), st)"
    by (metis prod.collapse)
  with False show ?thesis
    by blast
next
  case True
  then obtain tcid' tid rid out ws where
    f: "tool_call_id r = Some (JStr tcid')" "thread_id r = Some (JStr tid)"
       "run_id r = Some (JStr rid)" "validationErrors r = []"
       "processOutput (output_value r) = Inr (out, ws)"
    by (rule well_formedD)
  from f(1) assms(2) have tc: "tcid' = tcid"
    by simp
  note found = process_found [OF f(4) f(5) f(1) f(2) f(3) assms(1) [folded tc]]
  from assms(3) f have differ: "threadId pendingCall \<noteq> tid \<or> runId pendingCall \<noteq> rid"
    by auto
  have thread_msg: "str_includes (''Thread ID '' @ ''mismatch'' @ (''! Expected: '' @ x @ '', Received: '' @ y)) ''mismatch''" for x y
    by (rule str_includes_infix)
  have run_msg: "str_includes (''Run ID '' @ ''mismatch'' @ (''! Expected: '' @ x @ '', Received: '' @ y)) ''mismatch''" for x y
    by (rule str_includes_infix)
  show ?thesis
  proof (cases "threadId pendingCall \<noteq> tid")
    case True
    with found thread_msg [of "threadId pendingCall" tid] show ?thesis
      by simp
  next
    case False
    with differ have "runId pendingCall \<noteq> rid"
      by simp
    with False found run_msg [of "runId pendingCall" rid] show ?thesis
      by simp
  qed
qed

theorem mismatch_rejected_witness:
  "\<exists>e ws. processWebhookResponse mismatch_result example_state = (Inl e, ws, example_state)
     \<and> str_includes (message e) ''mismatch''"
proof -
  have entry: "map_of (pendingCalls example_state) ''call_1'' = Some example_call"
    by (simp add: example_state_def)
  have ident: "tool_call_id mismatch_result = Some (JStr ''call_1'')"
    by (simp add: mismatch_result_def matching_result_def)
  have differ: "thread_id mismatch_result \<noteq> Some (JStr (threadId example_call))
                \<or> run_id mismatch_result \<noteq> Some (JStr (runId example_call))"
    by (simp add: mismatch_result_def matching_result_def example_call_def)
  have "js_trim ''42 leads found'' = ''42 leads found''"
    by (rule js_trim_trimmed) (simp add: trimmed_def js_whitespace_def)
  then have wf: "well_formed mismatch_result"
    by (simp add: well_formed_def mismatch_result_def matching_result_def validationErrors_def
          processOutput_def size_limit_def)
  from mismatch_rejected [OF entry ident differ] wf show ?thesis
    by simp
qed

text \<open>
  The claim as stated fails: a result for the stored call with another thread identifier
  and a blank output is rejected by the output processing, before the map is looked at, and
  the error is not a correlation error.
\<close>

theorem mismatch_other_error_counterexample:
  "map_of (pendingCalls example_state) ''call_1'' = Some example_call
   \<and> tool_call_id blank_mismatch_result = Some (JStr ''call_1'')
   \<and> thread_id blank_mismatch_result \<noteq> Some (JStr (threadId example_call))
   \<and> processWebhookResponse blank_mismatch_result example_state
       = (Inl (Error ''Invalid output format: Processed output is empty''), [], example_state)
   \<and> \<not> str_includes ''Invalid output format: Processed output is empty'' ''mismatch''"
proof -
  have blank: "js_trim '' '' = []"
    by (simp add: js_trim_def js_whitespace_def)
  have "processOutput (Some (JStr '' '')) = Inl (Error ''Invalid output format: Processed output is empty'')"
    by (simp add: processOutput_def blank)
  then have "processWebhookResponse blank_mismatch_result example_state
       = (Inl (Error ''Invalid output format: Processed output is empty''), [], example_state)"
    by (simp add: processWebhookResponse_def blank_mismatch_result_def matching_result_def
          validationErrors_def)
  moreover have "\<not> str_includes ''Invalid output format: Processed output is empty'' ''mismatch''"
    by simp
  ultimately show ?thesis
    by (simp add: example_state_def blank_mismatch_result_def matching_result_def example_call_def)
qed

lemma matching_well_formed: "well_formed matching_result"
proof -
  have "js_trim ''42 leads found'' = ''42 leads found''"
    by (rule js_trim_trimmed) (simp add: trimmed_def js_whitespace_def)
  then show ?thesis
    by (simp add: well_formed_def matching_result_def validationErrors_def
          processOutput_def size_limit_def)
qed

text \<open>
  Claim C9. For a structurally valid result whose identifier has no entry in the map,
  \<open>processWebhookResponse\<close> does not throw: it logs the warning that no pending call was
  found, returns the processed response with the processed output and with
  \<open>employee_id\<close> and \<open>employee_name\<close> \<open>'unknown'\<close>, and leaves the state as it was.
\<close>

theorem stray_result_processed:
  assumes "well_formed r"
    and "map_of (pendingCalls st) (string_of (tool_call_id r)) = None"
  shows "\<exists>resp out ws ws'.
           processOutput (output_value r) = Inr (out, ws)
           \<and> processWebhookResponse r st = (Inr resp, ws', st)
           \<and> NoPendingCallFound (string_of (tool_call_id r)) \<in> set ws'
           \<and> r_tool_call_id resp = string_of (tool_call_id r)
           \<and> r_output resp = out
           \<and> r_thread_id resp = string_of (thread_id r)
           \<and> r_run_id resp = string_of (run_id r)
           \<and> employee_id resp = ''unknown''
           \<and> employee_name resp = Some ''unknown''"
proof -
  from assms(1) obtain tcid tid rid out ws where
    f: "validationErrors r = []" "processOutput (output_value r) = Inr (out, ws)"
    by (rule well_formedD)
  from process_not_found [OF f assms(2)] f(2) show ?thesis
    by (simp add: processedResponse_def)
qed

theorem stray_result_processed_witness:
  "\<exists>resp ws'.
     processWebhookResponse stray_result example_state = (Inr resp, ws', example_state)
     \<and> NoPendingCallFound ''call_9'' \<in> set ws'
     \<and> r_output resp = ''42 leads found''
     \<and> employee_id resp = ''unknown''
     \<and> employee_name resp = Some ''unknown''"
proof -
  have same_output: "output_value stray_result = output_value matching_result"
    by (simp add: stray_result_def)
  from matching_well_formed have wf: "well_formed stray_result"
    by (simp add: well_formed_def stray_result_def validationErrors_def matching_result_def)
  have ident: "string_of (tool_call_id stray_result) = ''call_9''"
    by (simp add: stray_result_def)
  have absent: "map_of (pendingCalls example_state) (string_of (tool_call_id stray_result)) = None"
    by (simp add: ident example_state_def)
  have "js_trim ''42 leads found'' = ''42 leads found''"
    by (rule js_trim_trimmed) (simp add: trimmed_def js_whitespace_def)
  then have out: "processOutput (output_value stray_result) = Inr (''42 leads found'', [])"
    by (simp add: same_output matching_result_def processOutput_def size_limit_def)
  from stray_result_processed [OF wf absent] show ?thesis
    unfolding ident out by auto
qed

lemma not_well_formed_throws:
  "\<not> well_formed r \<Longrightarrow> \<exists>e. processWebhookResponse r st = (Inl e, [], st)"
  by (auto simp: well_formed_def processWebhookResponse_def split: sum.splits)

lemma process_stored:
  assumes "map_of (pendingCalls st) tcid = Some pendingCall"
    and "tool_call_id r = Some (JStr tcid)"
    and "thread_id r = Some (JStr (threadId pendingCall))"
    and "run_id r = Some (JStr (runId pendingCall))"
    and "well_formed r"
  shows "\<exists>resp ws.
           processWebhookResponse r st
             = (Inr resp, ws, st\<lparr>pendingCalls := AList.delete tcid (pendingCalls st)\<rparr>)
           \<and> NoPendingCallFound tcid \<notin> set ws
           \<and> employee_id resp = (if employeeId pendingCall = [] then ''unknown''
                                    else employeeId pendingCall)"
proof -
  from assms(5) obtain out ws where
    f: "validationErrors r = []" "processOutput (output_value r) = Inr (out, ws)"
    by (rule well_formedD)
  have first: "processWebhookResponse r st
                 = (Inr (processedResponse tcid out (threadId pendingCall) (runId pendingCall)
                           (Some pendingCall) (clock st)), ws,
                    st\<lparr>pendingCalls := AList.delete tcid (pendingCalls st)\<rparr>)"
    using process_found [OF f assms(2) assms(3) assms(4) assms(1)] by simp
  have quiet: "NoPendingCallFound tcid \<notin> set ws"
    using f(2) by (auto simp: processOutput_def split: option.splits if_splits)
  have "employee_id (processedResponse tcid out (threadId pendingCall) (runId pendingCall)
                       (Some pendingCall) (clock st))
          = (if employeeId pendingCall = [] then ''unknown'' else employeeId pendingCall)"
    by (simp add: processedResponse_def)
  with first quiet show ?thesis
    by (intro exI conjI)
qed

lemma process_missing:
  assumes "map_of (pendingCalls st) tcid = None"
    and "tool_call_id r = Some (JStr tcid)"
    and "well_formed r"
  shows "\<exists>resp ws.
           processWebhookResponse r st = (Inr resp, ws, st)
           \<and> NoPendingCallFound tcid \<in> set ws
           \<and> employee_id resp = ''unknown''
           \<and> employee_name resp = Some ''unknown''
           \<and> validation_passed resp"
proof -
  from assms(3) obtain out ws where
    f: "validationErrors r = []" "processOutput (output_value r) = Inr (out, ws)"
    by (rule well_formedD)
  from assms(1) assms(2) have gone: "map_of (pendingCalls st) (string_of (tool_call_id r)) = None"
    by simp
  from process_not_found [OF f gone] show ?thesis
    by (simp add: assms(2) processedResponse_def)
qed

text \<open>
  Claim C3, as amended. Two calls of \<open>processWebhookResponse\<close>, one after the other (a
  call runs to its end without interruption), with results that carry the identifier and
  the thread and run of a stored call. A structurally valid first result is correlated: the
  response carries the call's employee and the entry is deleted. A structurally valid second
  result is then not rejected: the function finds no entry, logs that no pending call was
  found and returns a response with employee \<open>'unknown'\<close> and \<open>validation_passed\<close>
  set, leaving the map as the first call left it. A result that is not structurally valid
  makes its call throw and changes nothing. So the entry is deleted once, by the first
  valid result, and not at all when neither result is valid.
\<close>

theorem duplicate_result:
  assumes "map_of (pendingCalls st) tcid = Some pendingCall"
    and "tool_call_id r1 = Some (JStr tcid)"
    and "thread_id r1 = Some (JStr (threadId pendingCall))"
    and "run_id r1 = Some (JStr (runId pendingCall))"
    and "tool_call_id r2 = Some (JStr tcid)"
    and "thread_id r2 = Some (JStr (threadId pendingCall))"
    and "run_id r2 = Some (JStr (runId pendingCall))"
  shows "\<exists>res1 ws1 st1 res2 ws2 st2.
           processWebhookResponse r1 st = (res1, ws1, st1)
           \<and> processWebhookResponse r2 st1 = (res2, ws2, st2)
           \<and> (if well_formed r1
              then (\<exists>resp1. res1 = Inr resp1
                      \<and> employee_id resp1 = (if employeeId pendingCall = [] then ''unknown''
                                                else employeeId pendingCall))
                   \<and> NoPendingCallFound tcid \<notin> set ws1
                   \<and> pendingCalls st1 = AList.delete tcid (pendingCalls st)
                   \<and> map fst (pendingCalls st1) = removeAll tcid (map fst (pendingCalls st))
                   \<and> st2 = st1
                   \<and> (if well_formed r2
                      then (\<exists>resp2. res2 = Inr resp2
                              \<and> employee_id resp2 = ''unknown''
                              \<and> employee_name resp2 = Some ''unknown''
                              \<and> validation_passed resp2)
                           \<and> NoPendingCallFound tcid \<in> set ws2
                      else (\<exists>e. res2 = Inl e))
              else (\<exists>e. res1 = Inl e)
                   \<and> st1 = st
                   \<and> (if well_formed r2
                      then (\<exists>resp2. res2 = Inr resp2
                              \<and> employee_id resp2 = (if employeeId pendingCall = [] then ''unknown''
                                                        else employeeId pendingCall))
                           \<and> NoPendingCallFound tcid \<notin> set ws2
                           \<and> pendingCalls st2 = AList.delete tcid (pendingCalls st)
                      else (\<exists>e. res2 = Inl e) \<and> st2 = st))"
proof (cases "well_formed r1")
  case wf1: True
  let ?st1 = "st\<lparr>pendingCalls := AList.delete tcid (pendingCalls st)\<rparr>"
  from process_stored [OF assms(1) assms(2) assms(3) assms(4) wf1] obtain resp1 ws1 where
    first: "processWebhookResponse r1 st = (Inr resp1, ws1, ?st1)"
    and quiet: "NoPendingCallFound tcid \<notin> set ws1"
    and emp: "employee_id resp1 = (if employeeId pendingCall = [] then ''unknown''
                                      else employeeId pendingCall)"
    by (elim exE conjE)
  have gone: "map_of (pendingCalls ?st1) tcid = None"
    by (simp add: delete_conv')
  have store: "pendingCalls ?st1 = AList.delete tcid (pendingCalls st)"
    by simp
  have keys: "map fst (pendingCalls ?st1) = removeAll tcid (map fst (pendingCalls st))"
    by (simp add: delete_keys)
  show ?thesis
  proof (cases "well_formed r2")
    case wf2: True
    from process_missing [OF gone assms(5) wf2] obtain resp2 ws2 where
      second: "processWebhookResponse r2 ?st1 = (Inr resp2, ws2, ?st1)"
      and warned: "NoPendingCallFound tcid \<in> set ws2"
      and tag: "employee_id resp2 = ''unknown''" "employee_name resp2 = Some ''unknown''"
               "validation_passed resp2"
      by (elim exE conjE)
    from emp have one: "\<exists>resp. Inr resp1 = (Inr resp :: error + processed_response)
              \<and> employee_id resp = (if employeeId pendingCall = [] then ''unknown''
                                       else employeeId pendingCall)"
      by (intro exI [of _ resp1] conjI refl)
    from tag have two: "\<exists>resp. Inr resp2 = (Inr resp :: error + processed_response)
              \<and> employee_id resp = ''unknown'' \<and> employee_name resp = Some ''unknown''
              \<and> validation_passed resp"
      by (intro exI [of _ resp2] conjI refl)
    show ?thesis
      apply (rule exI [of _ "Inr resp1"], rule exI [of _ ws1], rule exI [of _ ?st1])
      apply (rule exI [of _ "Inr resp2"], rule exI [of _ ws2], rule exI [of _ ?st1])
      apply (simp only: wf1 wf2 if_True)
      apply (intro conjI first second one two quiet warned store keys refl)
      done
  next
    case nwf2: False
    from not_well_formed_throws [OF nwf2, of ?st1] obtain e where
      second: "processWebhookResponse r2 ?st1 = (Inl e, [], ?st1)"
      by (elim exE)
    from emp have one: "\<exists>resp. Inr resp1 = (Inr resp :: error + processed_response)
              \<and> employee_id resp = (if employeeId pendingCall = [] then ''unknown''
                                       else employeeId pendingCall)"
      by (intro exI [of _ resp1] conjI refl)
    have two: "\<exists>e'. Inl e = (Inl e' :: error + processed_response)"
      by (intro exI [of _ e] refl)
    show ?thesis
      apply (rule exI [of _ "Inr resp1"], rule exI [of _ ws1], rule exI [of _ ?st1])
      apply (rule exI [of _ "Inl e"], rule exI [of _ "[]"], rule exI [of _ ?st1])
      apply (simp only: wf1 nwf2 if_True if_False)
      apply (intro conjI first second one two quiet store keys refl)
      done
  qed
next
  case nwf1: False
  from not_well_formed_throws [OF nwf1, of st] obtain e1 where
    first: "processWebhookResponse r1 st = (Inl e1, [], st)"
    by (elim exE)
  have one: "\<exists>e'. Inl e1 = (Inl e' :: error + processed_response)"
    by (intro exI [of _ e1] refl)
  show ?thesis
  proof (cases "well_formed r2")
    case wf2: True
    let ?st2 = "st\<lparr>pendingCalls := AList.delete tcid (pendingCalls st)\<rparr>"
    from process_stored [OF assms(1) assms(5) assms(6) assms(7) wf2] obtain resp2 ws2 where
      second: "processWebhookResponse r2 st = (Inr resp2, ws2, ?st2)"
      and quiet: "NoPendingCallFound tcid \<notin> set ws2"
      and emp: "employee_id resp2 = (if employeeId pendingCall = [] then ''unknown''
                                        else employeeId pendingCall)"
      by (elim exE conjE)
    from emp have two: "\<exists>resp. Inr resp2 = (Inr resp :: error + processed_response)
              \<and> employee_id resp = (if employeeId pendingCall = [] then ''unknown''
                                       else employeeId pendingCall)"
      by (intro exI [of _ resp2] conjI refl)
    have store: "pendingCalls ?st2 = AList.delete tcid (pendingCalls st)"
      by simp
    show ?thesis
      apply (rule exI [of _ "Inl e1"], rule exI [of _ "[]"], rule exI [of _ st])
      apply (rule exI [of _ "Inr resp2"], rule exI [of _ ws2], rule exI [of _ ?st2])
      apply (simp only: nwf1 wf2 if_True if_False)
      apply (intro conjI first second one two quiet store refl)
      done
  next
    case nwf2: False
    from not_well_formed_throws [OF nwf2, of st] obtain e2 where
      second: "processWebhookResponse r2 st = (Inl e2, [], st)"
      by (elim exE)
    have two: "\<exists>e'. Inl e2 = (Inl e' :: error + processed_response)"
      by (intro exI [of _ e2] refl)
    show ?thesis
      apply (rule exI [of _ "Inl e1"], rule exI [of _ "[]"], rule exI [of _ st])
      apply (rule exI [of _ "Inl e2"], rule exI [of _ "[]"], rule exI [of _ st])
      apply (simp only: nwf1 nwf2 if_False)
      apply (intro conjI first second one two refl)
      done
  qed
qed

lemma matching_output:
  "processOutput (Some (JStr ''42 leads found'')) = Inr (''42 leads found'', [])"
proof -
  have "js_trim ''42 leads found'' = ''42 leads found''"
    by (rule js_trim_trimmed) (simp add: trimmed_def js_whitespace_def)
  then show ?thesis
    by (simp add: processOutput_def size_limit_def)
qed

lemma blank_output:
  "processOutput (Some (JStr '' '')) = Inl (Error ''Invalid output format: Processed output is empty'')"
proof -
  have "js_trim '' '' = []"
    by (simp add: js_trim_def js_whitespace_def)
  then show ?thesis
    by (simp add: processOutput_def)
qed

lemma blank_not_well_formed: "\<not> well_formed blank_matching_result"
  by (simp add: well_formed_def blank_matching_result_def blank_output)

lemma matching_stored:
  "processWebhookResponse matching_result example_state
     = (Inr (processedResponse ''call_1'' ''42 leads found'' ''thread_1'' ''run_1''
               (Some example_call) 1000), [], empty_state)"
proof -
  have valid: "validationErrors matching_result = []"
    by (simp add: validationErrors_def matching_result_def)
  have out: "processOutput (output_value matching_result) = Inr (''42 leads found'', [])"
    by (simp add: matching_result_def matching_output)
  have ids: "tool_call_id matching_result = Some (JStr ''call_1'')"
    "thread_id matching_result = Some (JStr ''thread_1'')"
    "run_id matching_result = Some (JStr ''run_1'')"
    by (simp_all add: matching_result_def)
  have entry: "map_of (pendingCalls example_state) ''call_1'' = Some example_call"
    by (simp add: example_state_def)
  show ?thesis
    using process_found [OF valid out ids entry]
    by (simp add: example_call_def example_state_def empty_state_def)
qed

lemma matching_missing:
  "processWebhookResponse matching_result empty_state
     = (Inr (processedResponse ''call_1'' ''42 leads found'' ''thread_1'' ''run_1'' None 1000),
        [NoPendingCallFound ''call_1'', AvailableIds [], WithoutPendingValidation], empty_state)"
proof -
  have valid: "validationErrors matching_result = []"
    by (simp add: validationErrors_def matching_result_def)
  have out: "processOutput (output_value matching_result) = Inr (''42 leads found'', [])"
    by (simp add: matching_result_def matching_output)
  have gone: "map_of (pendingCalls empty_state) (string_of (tool_call_id matching_result)) = None"
    by (simp add: empty_state_def)
  show ?thesis
    using process_not_found [OF valid out gone]
    by (simp add: matching_result_def empty_state_def similarIds_def)
qed

lemma blank_matching_throws:
  "processWebhookResponse blank_matching_result example_state
     = (Inl (Error ''Invalid output format: Processed output is empty''), [], example_state)"
  using blank_output
  by (simp add: processWebhookResponse_def blank_matching_result_def matching_result_def
        validationErrors_def)

theorem duplicate_result_witness:
  "(\<exists>resp1 ws1 st1 resp2 ws2.
      processWebhookResponse matching_result example_state = (Inr resp1, ws1, st1)
      \<and> pendingCalls st1 = []
      \<and> employee_id resp1 = ''van''
      \<and> processWebhookResponse matching_result st1 = (Inr resp2, ws2, st1)
      \<and> NoPendingCallFound ''call_1'' \<in> set ws2
      \<and> employee_id resp2 = ''unknown''
      \<and> validation_passed resp2)
   \<and> (\<exists>e ws1 resp2 ws2 st2.
         processWebhookResponse blank_matching_result example_state = (Inl e, ws1, example_state)
         \<and> processWebhookResponse matching_result example_state = (Inr resp2, ws2, st2)
         \<and> employee_id resp2 = ''van''
         \<and> pendingCalls st2 = [])"
proof -
  have entry: "map_of (pendingCalls example_state) ''call_1'' = Some example_call"
    by (simp add: example_state_def)
  have ids: "tool_call_id matching_result = Some (JStr ''call_1'')"
    "thread_id matching_result = Some (JStr (threadId example_call))"
    "run_id matching_result = Some (JStr (runId example_call))"
    by (simp_all add: matching_result_def example_call_def)
  have blank_ids: "tool_call_id blank_matching_result = Some (JStr ''call_1'')"
    "thread_id blank_matching_result = Some (JStr (threadId example_call))"
    "run_id blank_matching_result = Some (JStr (runId example_call))"
    by (simp_all add: blank_matching_result_def matching_result_def example_call_def)
  have emp: "employeeId example_call = ''van''"
    by (simp add: example_call_def)
  have store: "AList.delete ''call_1'' (pendingCalls example_state) = []"
    by (simp add: example_state_def)
  have wf: "well_formed matching_result = True" "well_formed blank_matching_result = False"
    using matching_well_formed blank_not_well_formed by simp_all
  from duplicate_result [OF entry ids ids]
  have both: "\<exists>resp1 ws1 st1 resp2 ws2.
      processWebhookResponse matching_result example_state = (Inr resp1, ws1, st1)
      \<and> pendingCalls st1 = []
      \<and> employee_id resp1 = ''van''
      \<and> processWebhookResponse matching_result st1 = (Inr resp2, ws2, st1)
      \<and> NoPendingCallFound ''call_1'' \<in> set ws2
      \<and> employee_id resp2 = ''unknown''
      \<and> validation_passed resp2"
    unfolding wf if_True emp store by auto
  from duplicate_result [OF entry blank_ids ids]
  have later: "\<exists>e ws1 resp2 ws2 st2.
         processWebhookResponse blank_matching_result example_state = (Inl e, ws1, example_state)
         \<and> processWebhookResponse matching_result example_state = (Inr resp2, ws2, st2)
         \<and> employee_id resp2 = ''van''
         \<and> pendingCalls st2 = []"
    unfolding wf if_True if_False emp store by auto
  from both later show ?thesis
    by (rule conjI)
qed

text \<open>
  The claim as stated fails: the second of two valid results is answered like the first,
  with a processed response that only its warnings and the \<open>'unknown'\<close> employee tell
  apart, and the route goes on with it; and a result with a blank output is refused
  however often it is sent, so two of them delete nothing.
\<close>

theorem duplicate_not_rejected_counterexample:
  "processWebhookResponse matching_result example_state
     = (Inr (processedResponse ''call_1'' ''42 leads found'' ''thread_1'' ''run_1''
               (Some example_call) 1000), [], empty_state)
   \<and> processWebhookResponse matching_result empty_state
       = (Inr (processedResponse ''call_1'' ''42 leads found'' ''thread_1'' ''run_1'' None 1000),
          [NoPendingCallFound ''call_1'', AvailableIds [], WithoutPendingValidation], empty_state)
   \<and> validation_passed
       (processedResponse ''call_1'' ''42 leads found'' ''thread_1'' ''run_1'' None 1000)
   \<and> webhook_response_route True matching_result empty_state
       = (GoesOn (processedResponse ''call_1'' ''42 leads found'' ''thread_1'' ''run_1'' None 1000),
          empty_state)
   \<and> processWebhookResponse blank_matching_result example_state
       = (Inl (Error ''Invalid output format: Processed output is empty''), [], example_state)
   \<and> map fst (pendingCalls example_state) = [''call_1'']"
proof -
  have passed: "validation_passed
       (processedResponse ''call_1'' ''42 leads found'' ''thread_1'' ''run_1'' None 1000)"
    by (simp add: processedResponse_def)
  have valid: "validateWebhookResponse matching_result = None"
    by (simp add: validateWebhookResponse_def matching_result_def Let_def)
  have route: "webhook_response_route True matching_result empty_state
       = (GoesOn (processedResponse ''call_1'' ''42 leads found'' ''thread_1'' ''run_1'' None 1000),
          empty_state)"
    by (simp add: webhook_response_route_def valid matching_missing numeral_2_eq_2)
  have keys: "map fst (pendingCalls example_state) = [''call_1'']"
    by (simp add: example_state_def)
  from matching_stored matching_missing passed route blank_matching_throws keys show ?thesis
    by (intro conjI)
qed

text \<open>
  An output of 100001 characters is cut to 100000 and the marker, and processing the
  result again returns it.
\<close>

theorem processOutput_truncation_witness:
  "processOutput long_output
     = Inr (replicate 100000 CHR ''a'' @ truncation_marker, [LargeOutput 100001])
   \<and> (\<exists>ws'. processOutput (Some (JStr (replicate 100000 CHR ''a'' @ truncation_marker)))
               = Inr (replicate 100000 CHR ''a'' @ truncation_marker, ws'))"
proof -
  have "trimmed (replicate 100001 CHR ''a'')"
    by (rule trimmedI) (simp_all add: js_whitespace_def hd_replicate last_replicate)
  moreover have "replicate 100001 CHR ''a'' \<noteq> ([] :: string)"
    by simp
  ultimately have
    out: "processOutput long_output
            = Inr (replicate 100000 CHR ''a'' @ truncation_marker, [LargeOutput 100001])"
    unfolding long_output_def by (simp add: processOutput_string size_limit_def)
  from processOutput_truncation [OF out] have
    "\<exists>ws'. processOutput (Some (JStr (replicate 100000 CHR ''a'' @ truncation_marker)))
              = Inr (replicate 100000 CHR ''a'' @ truncation_marker, ws')"
    by blast
  with out show ?thesis
    by (intro conjI)
qed

lemma falsy_is_missing:
  assumes "\<not> truthy (output_value body)"
  shows "\<exists>details. validateWebhookResponse body = Some (400, ''Missing required fields'', details)"
proof -
  let ?missing = "filter (\<lambda>item. \<not> truthy (snd item))
                    [(''tool_call_id'', tool_call_id body), (''output'', output_value body),
                     (''thread_id'', thread_id body), (''run_id'', run_id body)]"
  from assms have "(''output'', output_value body) \<in> set ?missing"
    by simp
  then have "length ?missing > 0"
    by (metis length_pos_if_in_set)
  then show ?thesis
    by (simp add: validateWebhookResponse_def Let_def)
qed

lemma processOutput_rejects:
  "(\<exists>e. processOutput out = Inl e) = (out = None \<or> (\<exists>s. out = Some (JStr s) \<and> js_trim s = []))"
proof (cases out)
  case None
  then show ?thesis
    by (simp add: processOutput_def)
next
  case (Some v)
  show ?thesis
  proof (cases "\<exists>s. v = JStr s")
    case True
    then obtain s where v: "v = JStr s"
      by blast
    show ?thesis
      unfolding Some v by (simp add: processOutput_def js_trim_idem)
  next
    case False
    obtain t where t: "output_text out = Some t"
      unfolding Some by (cases v) simp_all
    have "t \<noteq> []"
    proof (cases v)
      case (JNum n)
      with t Some trimmed_number [of n] show ?thesis by simp
    next
      case (JBool b)
      with t Some show ?thesis by (cases b) auto
    next
      case (JStr s)
      with False show ?thesis by simp
    next
      case JNull
      with t Some trimmed_stringify [of "''  ''" "[]" v] show ?thesis by auto
    next
      case (JArr vs)
      with t Some trimmed_stringify [of "''  ''" "[]" v] show ?thesis by auto
    next
      case (JObj kvs)
      with t Some trimmed_stringify [of "''  ''" "[]" v] show ?thesis by auto
    qed
    from processOutput_text [OF t this] have "\<not> (\<exists>e. processOutput out = Inl e)"
      by (simp split: if_splits)
    with False Some show ?thesis
      by simp
  qed
qed

lemma falsy_values:
  "(\<not> truthy v) =
     (v = None \<or> v = Some JNull \<or> v = Some (JBool False) \<or> v = Some (JNum 0) \<or> v = Some (JStr []))"
  by (cases v rule: truthy.cases) simp_all

lemma false_output: "processOutput (Some (JBool False)) = Inr (''false'', [])"
proof -
  have "js_trim ''false'' = ''false''"
    by (rule js_trim_trimmed) (simp add: trimmed_def js_whitespace_def)
  then show ?thesis
    by (simp add: processOutput_def size_limit_def)
qed

lemma zero_output: "processOutput (Some (JNum 0)) = Inr (''0'', [])"
proof -
  have "js_trim ''0'' = ''0''"
    by (rule js_trim_trimmed) (simp add: trimmed_def js_whitespace_def)
  moreover have "number_to_string 0 = ''0''"
    by (simp add: number_to_string_def nat_to_string.simps digit_char_def)
  ultimately show ?thesis
    by (simp add: processOutput_def size_limit_def)
qed

lemma empty_output:
  "processOutput (Some (JStr [])) = Inl (Error ''Invalid output format: Processed output is empty'')"
  by (simp add: processOutput_def js_trim_def)

lemma falsy_well_formed:
  assumes "\<not> truthy (output_value body)"
  shows "well_formed body =
           (validationErrors body = []
            \<and> (output_value body = Some (JBool False) \<or> output_value body = Some (JNum 0)))"
proof -
  from assms consider
      "output_value body = None" | "output_value body = Some JNull"
    | "output_value body = Some (JBool False)" | "output_value body = Some (JNum 0)"
    | "output_value body = Some (JStr [])"
    by (auto simp: falsy_values)
  then show ?thesis
  proof cases
    case 1
    then have "validationErrors body \<noteq> []"
      by (simp add: validationErrors_checks)
    then show ?thesis
      by (simp add: well_formed_def)
  next
    case 2
    then have "validationErrors body \<noteq> []"
      by (simp add: validationErrors_checks)
    then show ?thesis
      by (simp add: well_formed_def)
  next
    case 3
    then show ?thesis
      by (simp add: well_formed_def false_output)
  next
    case 4
    then show ?thesis
      by (simp add: well_formed_def zero_output)
  next
    case 5
    then show ?thesis
      by (simp add: well_formed_def empty_output)
  qed
qed

text \<open>
  Claim C10, as amended. A request to \<open>/webhook-response\<close> whose \<open>output\<close> is falsy
  (absent, \<open>null\<close>, \<open>false\<close>, \<open>0\<close> or the empty string) is answered by the middleware
  with 400 and \<open>'Missing required fields'\<close>, and the route returns that answer with the
  state untouched, so \<open>processWebhookResponse\<close> is not called. The validation of
  \<open>processWebhookResponse\<close> itself objects to an output only when it is absent or
  \<open>null\<close>; its output processing then refuses exactly the strings that are empty or
  blank, and turns \<open>false\<close> and \<open>0\<close> into the texts \<open>'false'\<close> and \<open>'0'\<close>. So
  among the falsy outputs the function accepts \<open>false\<close> and \<open>0\<close> and no other, and
  refuses the rest by throwing with the state unchanged.
\<close>

theorem falsy_output_rejected:
  assumes "\<not> truthy (output_value body)"
  shows "(\<exists>details.
            validateWebhookResponse body = Some (400, ''Missing required fields'', details)
            \<and> webhook_response_route services body st
                = (Respond 400 ''Missing required fields'' details, st))
         \<and> (output_value body \<noteq> None \<and> output_value body \<noteq> Some JNull
              \<longrightarrow> ''output cannot be undefined or null'' \<notin> set (validationErrors body))
         \<and> processOutput (Some (JBool False)) = Inr (''false'', [])
         \<and> processOutput (Some (JNum 0)) = Inr (''0'', [])
         \<and> processOutput (Some (JStr []))
             = Inl (Error ''Invalid output format: Processed output is empty'')
         \<and> ((\<exists>e. processOutput out = Inl e)
              = (out = None \<or> (\<exists>s. out = Some (JStr s) \<and> js_trim s = [])))
         \<and> (well_formed body
              = (validationErrors body = []
                 \<and> (output_value body = Some (JBool False) \<or> output_value body = Some (JNum 0))))
         \<and> (\<not> well_formed body \<longrightarrow> (\<exists>e. processWebhookResponse body st = (Inl e, [], st)))"
proof -
  from falsy_is_missing [OF assms] obtain details where
    v: "validateWebhookResponse body = Some (400, ''Missing required fields'', details)"
    by blast
  then have route: "webhook_response_route services body st
                      = (Respond 400 ''Missing required fields'' details, st)"
    by (simp add: webhook_response_route_def)
  from v route have boundary: "\<exists>details.
            validateWebhookResponse body = Some (400, ''Missing required fields'', details)
            \<and> webhook_response_route services body st
                = (Respond 400 ''Missing required fields'' details, st)"
    by (intro exI conjI)
  have check: "output_value body \<noteq> None \<and> output_value body \<noteq> Some JNull
              \<longrightarrow> ''output cannot be undefined or null'' \<notin> set (validationErrors body)"
    by (simp add: validationErrors_def)
  have throws: "\<not> well_formed body \<longrightarrow> (\<exists>e. processWebhookResponse body st = (Inl e, [], st))"
    by (rule impI) (rule not_well_formed_throws)
  from boundary check false_output zero_output empty_output processOutput_rejects [of out]
    falsy_well_formed [OF assms] throws
  show ?thesis
    by (intro conjI)
qed

theorem falsy_output_rejected_witness:
  "webhook_response_route True false_result example_state
     = (Respond 400 ''Missing required fields'' [(''details'', JStr ''Missing: output'')],
        example_state)
   \<and> ''output cannot be undefined or null'' \<notin> set (validationErrors false_result)
   \<and> validationErrors false_result = []
   \<and> well_formed false_result
   \<and> fst (processWebhookResponse false_result example_state)
       = Inr (processedResponse ''call_1'' ''false'' ''thread_1'' ''run_1'' (Some example_call) 1000)
   \<and> (\<exists>e. processOutput (Some (JStr '' '')) = Inl e)"
proof -
  have falsy: "\<not> truthy (output_value false_result)"
    by (simp add: false_result_def)
  have given: "output_value false_result \<noteq> None \<and> output_value false_result \<noteq> Some JNull"
    by (simp add: false_result_def)
  have details: "validateWebhookResponse false_result
                   = Some (400, ''Missing required fields'', [(''details'', JStr ''Missing: output'')])"
    by (simp add: validateWebhookResponse_def false_result_def matching_result_def Let_def)
  have valid: "validationErrors false_result = []"
    by (simp add: validationErrors_def false_result_def matching_result_def)
  have is_false: "output_value false_result = Some (JBool False)"
    by (simp add: false_result_def)
  have blank: "js_trim '' '' = []"
    by (simp add: js_trim_def js_whitespace_def)
  note inst = falsy_output_rejected
                [OF falsy, where services = True and st = example_state
                   and out = "Some (JStr '' '')"]
  from inst given have check: "''output cannot be undefined or null'' \<notin> set (validationErrors false_result)"
    by blast
  from inst details have route: "webhook_response_route True false_result example_state
     = (Respond 400 ''Missing required fields'' [(''details'', JStr ''Missing: output'')],
        example_state)"
    by auto
  from inst have out: "processOutput (output_value false_result) = Inr (''false'', [])"
    by (simp add: false_result_def)
  from inst valid is_false have wf: "well_formed false_result"
    by simp
  from inst blank have refused: "\<exists>e. processOutput (Some (JStr '' '')) = Inl e"
    by simp
  have ids: "tool_call_id false_result = Some (JStr ''call_1'')"
    "thread_id false_result = Some (JStr ''thread_1'')"
    "run_id false_result = Some (JStr ''run_1'')"
    by (simp_all add: false_result_def matching_result_def)
  have entry: "map_of (pendingCalls example_state) ''call_1'' = Some example_call"
    by (simp add: example_state_def)
  have "fst (processWebhookResponse false_result example_state)
       = Inr (processedResponse ''call_1'' ''false'' ''thread_1'' ''run_1'' (Some example_call) 1000)"
    using process_found [OF valid out ids entry]
    by (simp add: example_call_def example_state_def)
  with route check valid wf refused show ?thesis
    by (intro conjI)
qed

text \<open>
  The claim as stated fails in its clause on \<open>processWebhookResponse\<close>: the empty string
  and a blank string (which the middleware lets through) are neither \<open>null\<close> nor
  \<open>undefined\<close>, pass the function's validation and are refused by its output
  processing.
\<close>

theorem empty_output_refused_counterexample:
  "output_value empty_output_result \<noteq> None
   \<and> output_value empty_output_result \<noteq> Some JNull
   \<and> validationErrors empty_output_result = []
   \<and> processWebhookResponse empty_output_result example_state
       = (Inl (Error ''Invalid output format: Processed output is empty''), [], example_state)
   \<and> truthy (output_value blank_matching_result)
   \<and> validateWebhookResponse blank_matching_result = None
   \<and> processWebhookResponse blank_matching_result example_state
       = (Inl (Error ''Invalid output format: Processed output is empty''), [], example_state)"
proof -
  have given: "output_value empty_output_result \<noteq> None"
    "output_value empty_output_result \<noteq> Some JNull"
    by (simp_all add: empty_output_result_def)
  have valid: "validationErrors empty_output_result = []"
    by (simp add: validationErrors_def empty_output_result_def matching_result_def)
  have throws: "processWebhookResponse empty_output_result example_state
       = (Inl (Error ''Invalid output format: Processed output is empty''), [], example_state)"
    using empty_output
    by (simp add: processWebhookResponse_def empty_output_result_def matching_result_def
          validationErrors_def)
  have present: "truthy (output_value blank_matching_result)"
    by (simp add: blank_matching_result_def)
  have passes: "validateWebhookResponse blank_matching_result = None"
    by (simp add: validateWebhookResponse_def blank_matching_result_def matching_result_def Let_def)
  from given valid throws present passes blank_matching_throws show ?thesis
    by (intro conjI)
qed

section \<open>Properties of the /ask route\<close>

lemma busy_check_queued:
  assumes "run_status latestRun = ''queued''"
  shows "\<exists>body. busy_check emp tid (Inr (latestRun # older)) st = Some (409, ''Thread busy'', body)"
  using assms by (simp add: busy_check_def active_statuses_def)

lemma busy_check_in_progress:
  assumes "run_status latestRun = ''in_progress''"
  shows "\<exists>body. busy_check emp tid (Inr (latestRun # older)) st = Some (409, ''Thread busy'', body)"
  using assms by (simp add: busy_check_def active_statuses_def)

lemma busy_check_tool_calls:
  assumes "run_status latestRun = ''requires_action''"
    and "\<exists>entry \<in> set (pendingCalls st).
           threadId (snd entry) = tid \<and> runId (snd entry) = run_ident latestRun"
  shows "\<exists>body. busy_check emp tid (Inr (latestRun # older)) st
           = Some (409, ''Thread busy with tool calls'', body)"
proof -
  let ?pending = "filter (\<lambda>call. threadId (snd call) = tid \<and> runId (snd call) = run_ident latestRun)
                    (getPendingCalls st)"
  from assms(2) obtain entry where
    e: "entry \<in> set (pendingCalls st)" "threadId (snd entry) = tid"
       "runId (snd entry) = run_ident latestRun"
    by (elim bexE conjE)
  let ?view = "(fst entry,
               (snd entry)\<lparr>status :=
                  Some (case status (snd entry) of
                          None \<Rightarrow> ''pending''
                        | Some s \<Rightarrow> if s = [] then ''pending'' else s)\<rparr>)"
  from e(1) have "?view \<in> set (getPendingCalls st)"
    unfolding getPendingCalls_def set_map by (rule imageI)
  with e(2,3) have "?view \<in> set ?pending"
    by simp
  then have "length ?pending > 0"
    by (rule length_pos_if_in_set)
  with assms(1) show ?thesis
    by (simp add: busy_check_def active_statuses_def Let_def)
qed

lemma ask_route_busy:
  assumes "validateAskRequest req = None" and "services"
    and "employee_of (case ask_employee req of None \<Rightarrow> ''brenden'' | Some e \<Rightarrow> e) = Some emp"
    and "\<not> str_includes (emp_assistantId emp) ''placeholder''"
    and "ask_thread_id req = Some tid" and "tid \<noteq> []"
    and "busy_check emp tid (runs_list pr [] tid) st = Some (code, err, body)"
  shows "ask_route services pr req st = (Respond code err body, [ListRuns tid], st)"
proof -
  from assms(6) obtain c cs where tid: "tid = c # cs"
    by (cases tid) simp_all
  from assms(1-5,7) show ?thesis
    unfolding tid by (simp add: ask_route_def)
qed

text \<open>
  Claim C2, as amended. A request to \<open>/ask\<close> that passes the checks before step 1 (a
  valid message, the service initialised, a configured employee whose assistant is not a
  placeholder) and names an existing thread is answered with 409 (\<open>'Thread busy'\<close> or
  \<open>'Thread busy with tool calls'\<close>), with no call to the provider but the listing of the
  runs (no message appended, no run started, no thread created) and the handler's state
  untouched, when the listing succeeds and the latest run is \<open>queued\<close> or
  \<open>in_progress\<close>, or is \<open>requires_action\<close> and the map holds a pending call of that
  thread and run.
\<close>

theorem busy_thread_refused:
  assumes "validateAskRequest req = None" and "services"
    and "employee_of (case ask_employee req of None \<Rightarrow> ''brenden'' | Some e \<Rightarrow> e) = Some emp"
    and "\<not> str_includes (emp_assistantId emp) ''placeholder''"
    and "ask_thread_id req = Some tid" and "tid \<noteq> []"
    and "runs_list pr [] tid = Inr (latestRun # older)"
    and "run_status latestRun = ''queued'' \<or> run_status latestRun = ''in_progress''
         \<or> (run_status latestRun = ''requires_action''
             \<and> (\<exists>entry \<in> set (pendingCalls st).
                    threadId (snd entry) = tid \<and> runId (snd entry) = run_ident latestRun))"
  shows "\<exists>err body.
           ask_route services pr req st = (Respond 409 err body, [ListRuns tid], st)
           \<and> (err = ''Thread busy'' \<or> err = ''Thread busy with tool calls'')"
  using assms(8)
proof (elim disjE conjE)
  assume "run_status latestRun = ''queued''"
  from busy_check_queued [OF this, of emp tid older st] obtain body where
    "busy_check emp tid (runs_list pr [] tid) st = Some (409, ''Thread busy'', body)"
    unfolding assms(7) by (rule exE)
  from ask_route_busy [OF assms(1-6) this] show ?thesis
    by (intro exI conjI disjI1) (assumption, rule refl)
next
  assume "run_status latestRun = ''in_progress''"
  from busy_check_in_progress [OF this, of emp tid older st] obtain body where
    "busy_check emp tid (runs_list pr [] tid) st = Some (409, ''Thread busy'', body)"
    unfolding assms(7) by (rule exE)
  from ask_route_busy [OF assms(1-6) this] show ?thesis
    by (intro exI conjI disjI1) (assumption, rule refl)
next
  assume "run_status latestRun = ''requires_action''"
    and "\<exists>entry \<in> set (pendingCalls st).
           threadId (snd entry) = tid \<and> runId (snd entry) = run_ident latestRun"
  from busy_check_tool_calls [OF this, of emp older] obtain body where
    "busy_check emp tid (runs_list pr [] tid) st = Some (409, ''Thread busy with tool calls'', body)"
    unfolding assms(7) by (rule exE)
  from ask_route_busy [OF assms(1-6) this] show ?thesis
    by (intro exI conjI disjI2) (assumption, rule refl)
qed


lemma brenden:
  obtains emp where "employee_of ''brenden'' = Some emp"
    and "emp_name emp = ''AI Brenden''"
    and "emp_assistantId emp = ''asst_MvlMZ3IOvQrTkbsENRSzGRwZ''"
  by (simp add: employee_of_def config_employees_def)

lemma continue_request_valid: "validateAskRequest continue_request = None"
proof -
  have "js_trim ''hello'' = ''hello''"
    by (rule js_trim_trimmed) (simp add: trimmed_def js_whitespace_def)
  then show ?thesis
    by (simp add: validateAskRequest_def continue_request_def)
qed

lemma continue_request_fields:
  "ask_message continue_request = Some (JStr ''hello'')"
  "ask_employee continue_request = None"
  "ask_thread_id continue_request = Some ''thread_1''"
  by (simp_all add: continue_request_def)

lemma active_run_listed:
  "runs_list active_run_provider calls tid
     = Inr [\<lparr>run_ident = ''run_1'', run_status = ''requires_action''\<rparr>]"
  by (simp add: active_run_provider_def)

theorem busy_thread_refused_witness:
  "\<exists>body. ask_route True active_run_provider continue_request example_state
            = (Respond 409 ''Thread busy with tool calls'' body, [ListRuns ''thread_1''], example_state)"
proof -
  obtain emp where emp: "employee_of ''brenden'' = Some emp"
    and aid: "emp_assistantId emp = ''asst_MvlMZ3IOvQrTkbsENRSzGRwZ''"
    by (rule brenden)
  have db: "employee_of (case ask_employee continue_request of None \<Rightarrow> ''brenden'' | Some e \<Rightarrow> e)
              = Some emp"
    by (simp add: continue_request_fields emp)
  have np: "\<not> str_includes (emp_assistantId emp) ''placeholder''"
    by (simp add: aid)
  have ne: "''thread_1'' \<noteq> []"
    by simp
  let ?run = "\<lparr>run_ident = ''run_1'', run_status = ''requires_action''\<rparr>"
  have stored: "\<exists>entry \<in> set (pendingCalls example_state).
                  threadId (snd entry) = ''thread_1'' \<and> runId (snd entry) = run_ident ?run"
    by (simp add: example_state_def example_call_def)
  have status: "run_status ?run = ''requires_action''"
    by simp
  from status stored have
    busy: "run_status ?run = ''queued'' \<or> run_status ?run = ''in_progress''
           \<or> (run_status ?run = ''requires_action''
               \<and> (\<exists>entry \<in> set (pendingCalls example_state).
                      threadId (snd entry) = ''thread_1'' \<and> runId (snd entry) = run_ident ?run))"
    by (intro disjI2 conjI)
  from busy_thread_refused
         [OF continue_request_valid TrueI db np continue_request_fields(3) ne active_run_listed busy]
  obtain err body where
    r: "ask_route True active_run_provider continue_request example_state
          = (Respond 409 err body, [ListRuns ''thread_1''], example_state)"
    by (elim exE conjE)
  from busy_check_tool_calls [OF status stored, of emp "[]"] obtain body' where
    "busy_check emp ''thread_1'' (runs_list active_run_provider [] ''thread_1'') example_state
       = Some (409, ''Thread busy with tool calls'', body')"
    unfolding active_run_listed by (rule exE)
  from ask_route_busy [OF continue_request_valid TrueI db np continue_request_fields(3) ne this] r
  have "err = ''Thread busy with tool calls''"
    by simp
  with r show ?thesis
    by simp
qed

text \<open>
  The claim as stated fails: when the latest run is \<open>requires_action\<close> and the map
  holds no pending call of that run (line 862), the route gives no busy answer; it goes on
  to step 2 and asks the provider to append the message, and the provider's refusal
  reaches the caller as an error passed to \<open>next\<close>.
\<close>

theorem busy_thread_proceeds_counterexample:
  "runs_list active_run_provider [] ''thread_1''
     = Inr [\<lparr>run_ident = ''run_1'', run_status = ''requires_action''\<rparr>]
   \<and> ask_route True active_run_provider continue_request empty_state
       = (NextError (''Cannot add message to AI Brenden'' @ [CHR 0x27]
            @ ''s thread while processing. Please wait for the current operation to complete or check for pending tool calls.''),
          [ListRuns ''thread_1'', AddMessage ''thread_1'' ''hello''], empty_state)"
proof -
  obtain emp where emp: "employee_of ''brenden'' = Some emp"
    and name: "emp_name emp = ''AI Brenden''"
    and aid: "emp_assistantId emp = ''asst_MvlMZ3IOvQrTkbsENRSzGRwZ''"
    by (rule brenden)
  have np: "\<not> str_includes (emp_assistantId emp) ''placeholder''"
    by (simp add: aid)
  have free: "busy_check emp ''thread_1'' (runs_list active_run_provider [] ''thread_1'') empty_state
                = None"
    by (simp add: active_run_listed busy_check_def active_statuses_def getPendingCalls_def
          empty_state_def)
  have refused: "addMessage active_run_provider [ListRuns ''thread_1''] ''thread_1'' ''hello''
                   = Inl (''Can'' @ [CHR 0x27] @ ''t add messages to thread_1 while a run run_1 is active.'')"
    by (simp add: active_run_provider_def)
  have active: "active_run_error (''Can'' @ [CHR 0x27] @ ''t add messages to thread_1 while a run run_1 is active.'')"
    by (simp add: active_run_error_def)
  have two: "(2 :: nat) = Suc (Suc 0)"
    by simp
  have step2: "append_and_run active_run_provider emp ''hello'' ''thread_1'' [ListRuns ''thread_1'']
                 empty_state
               = (NextError (message (cannot_add_message emp)),
                  [ListRuns ''thread_1'', AddMessage ''thread_1'' ''hello''], empty_state)"
    unfolding append_and_run_def two using refused active by simp
  have msg: "message (cannot_add_message emp)
               = ''Cannot add message to AI Brenden'' @ [CHR 0x27]
                 @ ''s thread while processing. Please wait for the current operation to complete or check for pending tool calls.''"
    by (simp add: cannot_add_message_def name)
  have "ask_route True active_run_provider continue_request empty_state
          = (NextError (message (cannot_add_message emp)),
             [ListRuns ''thread_1'', AddMessage ''thread_1'' ''hello''], empty_state)"
    by (simp add: ask_route_def continue_request_valid continue_request_fields emp np free step2)
  with active_run_listed [of "[]" "''thread_1''"] show ?thesis
    unfolding msg by (intro conjI)
qed

end
